theory Spec2Isabelle
  imports Complex_Main "HOL-Library.Monad_Syntax" "HOL-Library.Char_ord" "HOL-Library.List_Lexorder"
    "HOL-Library.Multiset"
begin

text \<open>
  A shallow embedding of the retrieval and ranking pipeline: the chunker
  (\<open>src/retrieval/chunking.py\<close>), the indexer (\<open>src/retrieval/build_index.py\<close>), the
  retriever (\<open>src/retrieval/query.py\<close>) and the comparator agent
  (\<open>src/agent/agent.py\<close>). The vector store, the relational store, the ranking service and
  the JSON decoder are collaborators outside the repository; they appear as state or as
  parameters, and a call that may raise returns a sum whose left injection carries the
  message of the exception.
\<close>

section \<open>Chunker (src/retrieval/chunking.py)\<close>

text \<open>
  Python strings are modelled as \<open>string\<close>. \<open>str.strip()\<close> removes leading and
  trailing whitespace. A \<open>char\<close> stands for a code point below 256; the whitespace
  characters among these are the codes 9 to 13, 28 to 32, 133 and 160.
\<close>

definition py_isspace :: "char \<Rightarrow> bool" where
  "py_isspace c =
     (let n = (of_char c :: nat)
      in (9 \<le> n \<and> n \<le> 13) \<or> (28 \<le> n \<and> n \<le> 32) \<or> n = 133 \<or> n = 160)"

definition strip :: "string \<Rightarrow> string" where
  "strip s = rev (dropWhile py_isspace (rev (dropWhile py_isspace s)))"

text \<open>
  The slice \<open>text[start:end]\<close> with Python's treatment of bounds: a negative bound counts
  from the end, and every bound is clipped to the string.
\<close>

definition py_bound :: "nat \<Rightarrow> int \<Rightarrow> nat" where
  "py_bound n i = (if i < 0 then nat (max (i + int n) 0) else min (nat i) n)"

definition py_slice :: "'a list \<Rightarrow> int \<Rightarrow> int \<Rightarrow> 'a list" where
  "py_slice xs s e =
     (let lo = py_bound (length xs) s; hi = py_bound (length xs) e
      in take (hi - lo) (drop lo xs))"

text \<open>
  The \<open>while\<close> loop of \<open>_sliding_chunks\<close>, with its variables \<open>start\<close> and
  \<open>chunks\<close> as arguments. The loop need not terminate, so the result is an option:
  \<open>None\<close> is the loop that never returns.
\<close>

partial_function (option) sliding_loop ::
  "string \<Rightarrow> int \<Rightarrow> int \<Rightarrow> int \<Rightarrow> string list \<Rightarrow> string list option" where
  "sliding_loop text sz overlap start chunks =
     (if start < int (length text) then
        (let end' = start + sz;
             chunks' = chunks @ [py_slice text start end']
         in if end' \<ge> int (length text) then Some chunks'
            else sliding_loop text sz overlap (end' - overlap) chunks')
      else Some chunks)"

declare sliding_loop.simps [code]

definition sliding_chunks :: "string \<Rightarrow> int \<Rightarrow> int \<Rightarrow> string list option" where
  "sliding_chunks text sz overlap =
     (if text = [] then Some []
      else let t = strip text in
        if int (length t) \<le> sz then Some (if t \<noteq> [] then [t] else [])
        else sliding_loop t sz overlap 0 [])"

text \<open>
  \<open>_safe_str\<close>: a cell of a text column is a string or missing (\<open>None\<close>, NaN).
\<close>

definition safe_str :: "string option \<Rightarrow> string" where
  "safe_str val = (case val of None \<Rightarrow> [] | Some v \<Rightarrow> strip v)"

text \<open>The decimal rendering of a chunk index inside an f-string.\<close>

fun str_nat :: "nat \<Rightarrow> string" where
  "str_nat n = (if n < 10 then [char_of (48 + n)] else str_nat (n div 10) @ [char_of (48 + n mod 10)])"

record chunk =
  c_text :: string
  c_source_type :: string
  c_source_id :: string
  c_chunk_index :: nat

record ticket_cols =
  tc_Ticket_Number :: "string option"
  tc_Description :: "string option"
  tc_Resolution :: "string option"

record script_cols =
  sc_Script_ID :: "string option"
  sc_Script_Text_Sanitized :: "string option"

record kb_cols =
  kc_KB_Article_ID :: "string option"
  kc_Title :: "string option"
  kc_Body :: "string option"

definition mk_chunks :: "string \<Rightarrow> string \<Rightarrow> string list \<Rightarrow> chunk list" where
  "mk_chunks stype sid parts =
     map (\<lambda>(i, part). \<lparr>c_text = part, c_source_type = stype, c_source_id = sid, c_chunk_index = i\<rparr>)
       (enumerate 0 parts)"

fun chunks_from_tickets :: "ticket_cols list \<Rightarrow> int \<Rightarrow> int \<Rightarrow> chunk list option" where
  "chunks_from_tickets [] chunk_size chunk_overlap = Some []"
| "chunks_from_tickets (row # rows) chunk_size chunk_overlap =
     (let ticket_id = safe_str (tc_Ticket_Number row) in
      if ticket_id = [] then chunks_from_tickets rows chunk_size chunk_overlap
      else
        let desc = safe_str (tc_Description row);
            res = safe_str (tc_Resolution row);
            combined = strip (''Description: '' @ desc @ [CHR 10, CHR 10] @ ''Resolution: '' @ res)
        in if combined = [] then chunks_from_tickets rows chunk_size chunk_overlap
           else do {
             parts \<leftarrow> sliding_chunks combined chunk_size chunk_overlap;
             rest \<leftarrow> chunks_from_tickets rows chunk_size chunk_overlap;
             Some (mk_chunks ''ticket'' ticket_id parts @ rest)
           })"

fun chunks_from_scripts :: "script_cols list \<Rightarrow> int \<Rightarrow> int \<Rightarrow> chunk list option" where
  "chunks_from_scripts [] chunk_size chunk_overlap = Some []"
| "chunks_from_scripts (row # rows) chunk_size chunk_overlap =
     (let script_id = safe_str (sc_Script_ID row) in
      if script_id = [] then chunks_from_scripts rows chunk_size chunk_overlap
      else
        let body = safe_str (sc_Script_Text_Sanitized row)
        in if body = [] then chunks_from_scripts rows chunk_size chunk_overlap
           else do {
             parts \<leftarrow> sliding_chunks body chunk_size chunk_overlap;
             rest \<leftarrow> chunks_from_scripts rows chunk_size chunk_overlap;
             Some (mk_chunks ''script'' script_id parts @ rest)
           })"

text \<open>The text of a KB article: \<open>Title: <title>\<close>, an empty line and the body.\<close>

definition kb_combined :: "string \<Rightarrow> string \<Rightarrow> string" where
  "kb_combined title body =
     (if title \<noteq> [] then strip (''Title: '' @ title @ [CHR 10, CHR 10] @ body) else body)"

fun chunks_from_kb :: "kb_cols list \<Rightarrow> int \<Rightarrow> int \<Rightarrow> chunk list option" where
  "chunks_from_kb [] chunk_size chunk_overlap = Some []"
| "chunks_from_kb (row # rows) chunk_size chunk_overlap =
     (let kb_id = safe_str (kc_KB_Article_ID row) in
      if kb_id = [] then chunks_from_kb rows chunk_size chunk_overlap
      else
        let title = safe_str (kc_Title row);
            body = safe_str (kc_Body row);
            combined = kb_combined title body
        in if combined = [] then chunks_from_kb rows chunk_size chunk_overlap
           else do {
             parts \<leftarrow> sliding_chunks combined chunk_size chunk_overlap;
             rest \<leftarrow> chunks_from_kb rows chunk_size chunk_overlap;
             Some (mk_chunks ''kb'' kb_id parts @ rest)
           })"

text \<open>
  The relational store as \<open>load_chunks_from_db\<close> reads it: the three tables, each of
  which may fail to read. What escapes a function is \<open>AgentError\<close> or any other exception.
\<close>

datatype error = AgentError string | OtherError string

record db =
  db_Tickets :: "string + ticket_cols list"
  db_Scripts_Master :: "string + script_cols list"
  db_Knowledge_Articles :: "string + kb_cols list"

definition load_chunks_from_db :: "db \<Rightarrow> int \<Rightarrow> int \<Rightarrow> (error + chunk list) option" where
  "load_chunks_from_db d chunk_size chunk_overlap =
     (case db_Tickets d of
        Inl m \<Rightarrow> Some (Inl (OtherError m))
      | Inr df_t \<Rightarrow> do {
          ts \<leftarrow> chunks_from_tickets df_t chunk_size chunk_overlap;
          (case db_Scripts_Master d of
             Inl m \<Rightarrow> Some (Inl (OtherError m))
           | Inr df_s \<Rightarrow> do {
               ss \<leftarrow> chunks_from_scripts df_s chunk_size chunk_overlap;
               (case db_Knowledge_Articles d of
                  Inl m \<Rightarrow> Some (Inl (OtherError m))
                | Inr df_k \<Rightarrow> do {
                    ks \<leftarrow> chunks_from_kb df_k chunk_size chunk_overlap;
                    Some (Inr (ts @ ss @ ks))
                  })
             })
        })"


section \<open>Indexer (src/retrieval/build_index.py)\<close>

text \<open>
  A metadata value of the vector store is a string or an integer; metadata is a dictionary
  from keys to such values. An entry of a collection has an identifier, a document and
  its metadata. The store under a path is a map from collection names to their entries:
  \<open>delete_collection\<close> removes a name (and raises on a missing one, which \<open>build_index\<close>
  ignores), \<open>create_collection\<close> binds it to no entries, \<open>get_collection\<close> raises on a
  missing name, and \<open>add\<close> appends entries.
\<close>

datatype mval = MStr string | MInt int

type_synonym metadata = "(string \<times> mval) list"

record entry =
  e_id :: string
  e_document :: string
  e_metadata :: metadata

type_synonym vector_store = "string \<rightharpoonup> entry list"

definition collection_add :: "entry list \<Rightarrow> string list \<Rightarrow> string list \<Rightarrow> metadata list \<Rightarrow> entry list" where
  "collection_add col ids documents metadatas =
     col @ map (\<lambda>(i, d, m). \<lparr>e_id = i, e_document = d, e_metadata = m\<rparr>)
             (zip ids (zip documents metadatas))"

definition chunk_metadata :: "chunk \<Rightarrow> metadata" where
  "chunk_metadata c =
     [(''source_type'', MStr (c_source_type c)),
      (''source_id'', MStr (c_source_id c)),
      (''chunk_index'', MInt (int (c_chunk_index c)))]"

definition build_chunk_id :: "chunk \<Rightarrow> string" where
  "build_chunk_id c = c_source_type c @ ''_'' @ c_source_id c @ ''_'' @ str_nat (c_chunk_index c)"

text \<open>The batch loop \<open>for i in range(0, len(ids), batch_size)\<close> with its counter as argument.\<close>

function add_batches ::
  "string list \<Rightarrow> string list \<Rightarrow> metadata list \<Rightarrow> nat \<Rightarrow> entry list \<Rightarrow> entry list" where
  "add_batches ids documents metadatas i col =
     (if i < length ids then
        (let end' = min (i + 100) (length ids)
         in add_batches ids documents metadatas (i + 100)
              (collection_add col (take (end' - i) (drop i ids))
                 (take (end' - i) (drop i documents)) (take (end' - i) (drop i metadatas))))
      else col)"
  by pat_completeness auto
termination
  by (relation "measure (\<lambda>(ids, documents, metadatas, i, col). length ids - i)") auto

definition build_index ::
  "db \<Rightarrow> vector_store \<Rightarrow> string \<Rightarrow> int \<Rightarrow> int \<Rightarrow> (vector_store \<times> (error + nat)) option" where
  "build_index d store collection_name chunk_size chunk_overlap =
     (let deleted = store(collection_name := None);
          created = deleted(collection_name \<mapsto> [])
      in do {
        loaded \<leftarrow> load_chunks_from_db d chunk_size chunk_overlap;
        (case loaded of
           Inl e \<Rightarrow> Some (created, Inl e)
         | Inr chunks \<Rightarrow>
             (let ids = map build_chunk_id chunks;
                  documents = map c_text chunks;
                  metadatas = map chunk_metadata chunks
              in if ids = [] then Some (created, Inr 0)
                 else Some (created(collection_name \<mapsto> add_batches ids documents metadatas 0 []),
                            Inr (length ids))))
      })"

definition kb_chunk_id :: "chunk \<Rightarrow> string" where
  "kb_chunk_id c = ''kb_'' @ c_source_id c @ ''_'' @ str_nat (c_chunk_index c)"

definition kb_chunk_metadata :: "chunk \<Rightarrow> metadata" where
  "kb_chunk_metadata c =
     [(''source_type'', MStr ''kb''),
      (''source_id'', MStr (c_source_id c)),
      (''chunk_index'', MInt (int (c_chunk_index c)))]"

definition add_kb_article_to_index ::
  "string \<Rightarrow> string option \<Rightarrow> string option \<Rightarrow> vector_store \<Rightarrow> string \<Rightarrow> int \<Rightarrow> int \<Rightarrow>
     (vector_store \<times> (error + nat)) option" where
  "add_kb_article_to_index kb_article_id title0 body0 store collection_name chunk_size chunk_overlap =
     (let title = safe_str title0;
          body = safe_str body0;
          combined = kb_combined title body
      in if combined = [] then Some (store, Inr 0)
         else do {
           chunks \<leftarrow> sliding_chunks combined chunk_size chunk_overlap;
           (let chunk_list = mk_chunks ''kb'' kb_article_id chunks
            in if chunk_list = [] then Some (store, Inr 0)
               else (case store collection_name of
                       None \<Rightarrow> Some (store, Inl (OtherError ''collection does not exist''))
                     | Some col \<Rightarrow>
                         (let ids = map kb_chunk_id chunk_list;
                              documents = map c_text chunk_list;
                              metadatas = map kb_chunk_metadata chunk_list
                          in Some (store(collection_name \<mapsto> collection_add col ids documents metadatas),
                                   Inr (length ids)))))
         })"


section \<open>Collaborators of the retriever and the agent\<close>

text \<open>
  The answer of a similarity query: documents, metadata and distances, each a list with one
  inner list per query text, or missing. A collection answers \<open>count\<close> and \<open>query\<close>.
\<close>

record query_result =
  qr_documents :: "string list list option"
  qr_metadatas :: "metadata list list option"
  qr_distances :: "real list list option"

record collection =
  col_count :: int
  col_query :: "string \<Rightarrow> int \<Rightarrow> metadata option \<Rightarrow> string + query_result"

text \<open>
  A decoded JSON value. Numbers are the integers: a number with a fraction or an exponent
  is outside the model. An object is the dictionary the decoder has built.
\<close>

datatype json = JNull | JBool bool | JInt int | JStr string | JArr "json list" | JObj "(string \<times> json) list"

record ticket_row =
  tr_Ticket_Number :: "string option"
  tr_Status :: "string option"
  tr_Tier :: "string option"
  tr_Module :: "string option"
  tr_Category :: "string option"
  tr_Resolution :: "string option"
  tr_KB_Article_ID :: "string option"
  tr_Script_ID :: "string option"
  tr_Description :: "string option"

record candidate =
  cand_ticket_number :: "string option"
  cand_status :: "string option"
  cand_tier :: "string option"
  cand_module :: "string option"
  cand_category :: "string option"
  cand_resolution :: string
  cand_kb_article_id :: string
  cand_script_id :: string
  cand_script_text :: string
  cand_description :: string

record llm_candidate =
  llm_index :: nat
  llm_ticket_number :: "string option"
  llm_status :: "string option"
  llm_tier :: "string option"
  llm_module :: "string option"
  llm_category :: "string option"
  llm_description :: string
  llm_resolution :: string
  llm_has_kb_article :: bool
  llm_has_script :: bool

record ranked_result =
  r_rank :: json
  r_ticket_number :: "string option"
  r_kb_article_id :: string
  r_script_id :: string
  r_script_text :: string
  r_rationale :: json
  r_module :: "string option"
  r_category :: "string option"
  r_status :: "string option"
  r_tier :: "string option"

text \<open>The dictionary \<open>compare\<close> returns, as the list of its items.\<close>

datatype rval = RNone | RBool bool | RStr string | RList "ranked_result list"

type_synonym result = "(string \<times> rval) list"

text \<open>
  Everything \<open>compare\<close> and \<open>query_chroma\<close> reach outside the program: the two module-level
  hooks (each receives the context dictionary, which holds the question as it was passed
  in), the file system, the vector store (embedding function, client and
  \<open>get_collection\<close> for a path and a collection name), the relational store (connecting,
  the ticket query and the script query, each returning the first row if there is one),
  the environment variable with the credential, the ranking service (constructing the
  client; the chat completion for a model, the question and the candidate views, returning
  the content of each choice) and \<open>json.loads\<close>.
\<close>

record env =
  incoming_hook :: "(string \<Rightarrow> string \<Rightarrow> string) option"
  outgoing_hook :: "(result \<Rightarrow> string \<Rightarrow> result) option"
  path_exists :: "string \<Rightarrow> bool"
  get_collection :: "string \<Rightarrow> string \<Rightarrow> string + collection"
  db_connect :: "string \<Rightarrow> string + unit"
  db_ticket :: "mval \<Rightarrow> string + ticket_row option"
  db_script :: "string \<Rightarrow> string + string option option"
  getenv_OPENAI_API_KEY :: "string option"
  openai_client :: "string \<Rightarrow> string + unit"
  chat_completions :: "string \<Rightarrow> string \<Rightarrow> llm_candidate list \<Rightarrow> string + string option list"
  json_loads :: "string \<Rightarrow> string + json"

text \<open>The calls made to the collaborators, in the order they are made.\<close>

datatype event =
    VectorQuery string int
  | Connect string
  | TicketQuery mval
  | ScriptQuery string
  | ClientInit
  | RankingCall string

text \<open>Sequencing of two stages: the first error ends the run, the calls accumulate.\<close>

definition then_stage ::
  "event list \<times> (error + 'a) \<Rightarrow> ('a \<Rightarrow> event list \<times> (error + 'b)) \<Rightarrow> event list \<times> (error + 'b)" where
  "then_stage m f =
     (case m of
        (l, Inl e) \<Rightarrow> (l, Inl e)
      | (l, Inr x) \<Rightarrow> (case f x of (l', r) \<Rightarrow> (l @ l', r)))"

definition first_nonempty :: "'a list list option \<Rightarrow> 'a list option" where
  "first_nonempty x =
     (case x of
        None \<Rightarrow> None
      | Some [] \<Rightarrow> None
      | Some (d # _) \<Rightarrow> (if d = [] then None else Some d))"

definition meta_get :: "metadata \<Rightarrow> string \<Rightarrow> mval \<Rightarrow> mval" where
  "meta_get meta k dflt = (case map_of meta k of None \<Rightarrow> dflt | Some v \<Rightarrow> v)"

section \<open>Retriever (src/retrieval/query.py)\<close>

record hit =
  h_text :: string
  h_source_type :: mval
  h_source_id :: mval
  h_chunk_index :: mval
  h_distance :: "real option"

definition query_hits :: "query_result \<Rightarrow> hit list" where
  "query_hits results =
     (case first_nonempty (qr_documents results) of
        None \<Rightarrow> []
      | Some docs \<Rightarrow>
          (let metadatas = (case qr_metadatas results of
                              Some (m # _) \<Rightarrow> m
                            | _ \<Rightarrow> replicate (length docs) []);
               distances = (case qr_distances results of
                              Some (d # _) \<Rightarrow> map Some d
                            | _ \<Rightarrow> replicate (length docs) None)
           in map (\<lambda>(i, doc).
                 (let meta = (if i < length metadatas then metadatas ! i else [])
                  in \<lparr>h_text = doc,
                      h_source_type = meta_get meta ''source_type'' (MStr []),
                      h_source_id = meta_get meta ''source_id'' (MStr []),
                      h_chunk_index = meta_get meta ''chunk_index'' (MInt 0),
                      h_distance = (if i < length distances then distances ! i else None)\<rparr>))
                (enumerate 0 docs)))"

definition query_chroma ::
  "env \<Rightarrow> string \<Rightarrow> string \<Rightarrow> int \<Rightarrow> string \<Rightarrow> metadata option \<Rightarrow> error + hit list" where
  "query_chroma ev query_text chroma_path k collection_name where_filter =
     (if \<not> path_exists ev chroma_path then Inr []
      else (case get_collection ev chroma_path collection_name of
              Inl m \<Rightarrow> Inl (OtherError m)
            | Inr col \<Rightarrow>
                (case col_query col query_text (min k (col_count col)) where_filter of
                   Inl m \<Rightarrow> Inl (OtherError m)
                 | Inr results \<Rightarrow> Inr (query_hits results))))"


section \<open>Comparator agent (src/agent/agent.py)\<close>

subsection \<open>Step 1: the tickets nearest to the question\<close>

definition embedding_query :: "env \<Rightarrow> string \<Rightarrow> string \<Rightarrow> int \<Rightarrow> event list \<times> (error + query_result)" where
  "embedding_query ev chroma_path question top_k =
     (case get_collection ev chroma_path ''supportmind'' of
        Inl m \<Rightarrow> ([], Inl (AgentError (''Embedding query failed: '' @ m)))
      | Inr col \<Rightarrow>
          (let n_results = min top_k (col_count col)
           in ([VectorQuery question n_results],
               (case col_query col question n_results (Some [(''source_type'', MStr ''ticket'')]) of
                  Inl m \<Rightarrow> Inl (AgentError (''Embedding query failed: '' @ m))
                | Inr results \<Rightarrow> Inr results))))"

definition truthy :: "mval \<Rightarrow> bool" where
  "truthy v = (case v of MStr s \<Rightarrow> s \<noteq> [] | MInt i \<Rightarrow> i \<noteq> 0)"

fun extract_ticket_numbers :: "metadata list \<Rightarrow> mval list \<Rightarrow> mval list" where
  "extract_ticket_numbers [] ticket_numbers = ticket_numbers"
| "extract_ticket_numbers (meta # metas) ticket_numbers =
     (case map_of meta ''source_id'' of
        None \<Rightarrow> extract_ticket_numbers metas ticket_numbers
      | Some ticket_num \<Rightarrow>
          (if truthy ticket_num \<and> ticket_num \<notin> set ticket_numbers
           then extract_ticket_numbers metas (ticket_numbers @ [ticket_num])
           else extract_ticket_numbers metas ticket_numbers))"

definition retrieved_ticket_numbers :: "query_result \<Rightarrow> mval list" where
  "retrieved_ticket_numbers results =
     (case first_nonempty (qr_metadatas results) of
        None \<Rightarrow> []
      | Some metas \<Rightarrow> extract_ticket_numbers metas [])"

subsection \<open>Step 2: the ticket rows and their scripts\<close>

definition or_empty :: "string option \<Rightarrow> string" where
  "or_empty v = (case v of None \<Rightarrow> [] | Some s \<Rightarrow> s)"

definition mk_candidate :: "ticket_row \<Rightarrow> string \<Rightarrow> candidate" where
  "mk_candidate row script_text =
     \<lparr>cand_ticket_number = tr_Ticket_Number row,
      cand_status = tr_Status row,
      cand_tier = tr_Tier row,
      cand_module = tr_Module row,
      cand_category = tr_Category row,
      cand_resolution = or_empty (tr_Resolution row),
      cand_kb_article_id = or_empty (tr_KB_Article_ID row),
      cand_script_id = or_empty (tr_Script_ID row),
      cand_script_text = script_text,
      cand_description = or_empty (tr_Description row)\<rparr>"

text \<open>
  The loop over \<open>ticket_numbers\<close> inside the connection, with \<open>candidates\<close> as argument;
  the left injection is the message of the exception that ended it.
\<close>

fun hydrate :: "env \<Rightarrow> mval list \<Rightarrow> candidate list \<Rightarrow> event list \<times> (string + candidate list)" where
  "hydrate ev [] candidates = ([], Inr candidates)"
| "hydrate ev (ticket_num # rest) candidates =
     (case db_ticket ev ticket_num of
        Inl m \<Rightarrow> ([TicketQuery ticket_num], Inl m)
      | Inr None \<Rightarrow>
          (case hydrate ev rest candidates of (l, r) \<Rightarrow> (TicketQuery ticket_num # l, r))
      | Inr (Some row) \<Rightarrow>
          (if or_empty (tr_Script_ID row) \<noteq> [] then
             (case db_script ev (or_empty (tr_Script_ID row)) of
                Inl m \<Rightarrow> ([TicketQuery ticket_num, ScriptQuery (or_empty (tr_Script_ID row))], Inl m)
              | Inr script_row \<Rightarrow>
                  (let script_text = (case script_row of Some (Some t) \<Rightarrow> t | _ \<Rightarrow> [])
                   in case hydrate ev rest (candidates @ [mk_candidate row script_text]) of
                        (l, r) \<Rightarrow>
                          (TicketQuery ticket_num # ScriptQuery (or_empty (tr_Script_ID row)) # l, r)))
           else
             (case hydrate ev rest (candidates @ [mk_candidate row []]) of
                (l, r) \<Rightarrow> (TicketQuery ticket_num # l, r))))"

definition hydrate_stage :: "env \<Rightarrow> string \<Rightarrow> mval list \<Rightarrow> event list \<times> (error + candidate list)" where
  "hydrate_stage ev db_path ticket_numbers =
     (if \<not> path_exists ev db_path then ([], Inl (AgentError (''DB not found: '' @ db_path)))
      else (case db_connect ev db_path of
              Inl m \<Rightarrow> ([Connect db_path], Inl (AgentError (''Database query failed: '' @ m)))
            | Inr _ \<Rightarrow>
                (case hydrate ev ticket_numbers [] of
                   (l, Inl m) \<Rightarrow> (Connect db_path # l, Inl (AgentError (''Database query failed: '' @ m)))
                 | (l, Inr candidates) \<Rightarrow> (Connect db_path # l, Inr candidates))))"

subsection \<open>Step 3: the call to the ranking service\<close>

definition candidates_for_llm :: "candidate list \<Rightarrow> llm_candidate list" where
  "candidates_for_llm candidates =
     map (\<lambda>(i, c).
            \<lparr>llm_index = i,
             llm_ticket_number = cand_ticket_number c,
             llm_status = cand_status c,
             llm_tier = cand_tier c,
             llm_module = cand_module c,
             llm_category = cand_category c,
             llm_description = take 300 (cand_description c),
             llm_resolution = take 300 (cand_resolution c),
             llm_has_kb_article = (cand_kb_article_id c \<noteq> []),
             llm_has_script = (cand_script_id c \<noteq> [])\<rparr>)
         (enumerate 0 candidates)"

text \<open>The stage returns \<open>response_text\<close>: the content of the first choice, trimmed.\<close>

definition rank_stage :: "env \<Rightarrow> string \<Rightarrow> string \<Rightarrow> candidate list \<Rightarrow> event list \<times> (error + string)" where
  "rank_stage ev model question candidates =
     (case getenv_OPENAI_API_KEY ev of
        None \<Rightarrow> ([], Inl (AgentError ''OPENAI_API_KEY not set in .env''))
      | Some api_key \<Rightarrow>
          (if strip api_key = [] then ([], Inl (AgentError ''OPENAI_API_KEY not set in .env''))
           else (case openai_client ev (strip api_key) of
                   Inl m \<Rightarrow> ([ClientInit], Inl (AgentError (''OpenAI client init failed: '' @ m)))
                 | Inr _ \<Rightarrow>
                     (case chat_completions ev model question (candidates_for_llm candidates) of
                        Inl m \<Rightarrow>
                          ([ClientInit, RankingCall model],
                           Inl (AgentError (''OpenAI API call failed: '' @ m)))
                      | Inr choices \<Rightarrow>
                          ([ClientInit, RankingCall model],
                           (case choices of
                              [] \<Rightarrow> Inl (OtherError ''IndexError'')
                            | content # _ \<Rightarrow> Inr (strip (or_empty content))))))))"

subsection \<open>Step 4: parsing the response and assembling the result\<close>

definition startswith :: "string \<Rightarrow> string \<Rightarrow> bool" where
  "startswith s p = (take (length p) s = p)"

fun split_on :: "char \<Rightarrow> string \<Rightarrow> string list" where
  "split_on c [] = [[]]"
| "split_on c (x # xs) =
     (if x = c then [] # split_on c xs
      else (case split_on c xs of [] \<Rightarrow> [[x]] | l # ls \<Rightarrow> (x # l) # ls))"

fun join :: "string \<Rightarrow> string list \<Rightarrow> string" where
  "join sep [] = []"
| "join sep [l] = l"
| "join sep (l # ls) = l @ sep @ join sep ls"

definition strip_fence :: "string \<Rightarrow> string" where
  "strip_fence response_text =
     (if startswith response_text ''```'' then
        (let lines = split_on (CHR 10) response_text;
             lines1 = (case lines of [] \<Rightarrow> [] | l # ls \<Rightarrow> if startswith l ''```'' then ls else lines);
             lines2 = (if lines1 \<noteq> [] \<and> strip (last lines1) = ''```'' then butlast lines1 else lines1)
         in join [CHR 10] lines2)
      else response_text)"

definition dict_get :: "(string \<times> json) list \<Rightarrow> string \<Rightarrow> json \<Rightarrow> json" where
  "dict_get d k dflt = (case map_of d k of None \<Rightarrow> dflt | Some v \<Rightarrow> v)"

definition decode_rankings :: "env \<Rightarrow> string \<Rightarrow> error + json" where
  "decode_rankings ev response_text =
     (case json_loads ev (strip_fence response_text) of
        Inl m \<Rightarrow> Inl (AgentError (''OpenAI returned invalid JSON: '' @ m))
      | Inr decision \<Rightarrow>
          (case decision of
             JObj d \<Rightarrow> Inr (dict_get d ''rankings'' (JArr []))
           | _ \<Rightarrow> Inl (OtherError ''AttributeError'')))"

definition json_falsy :: "json \<Rightarrow> bool" where
  "json_falsy j =
     (case j of
        JNull \<Rightarrow> True
      | JBool b \<Rightarrow> \<not> b
      | JInt i \<Rightarrow> i = 0
      | JStr s \<Rightarrow> s = []
      | JArr xs \<Rightarrow> xs = []
      | JObj d \<Rightarrow> d = [])"

text \<open>A value that Python compares with an integer: an integer or a boolean.\<close>

definition py_int :: "json \<Rightarrow> int option" where
  "py_int j =
     (case j of
        JInt i \<Rightarrow> Some i
      | JBool b \<Rightarrow> Some (if b then 1 else 0)
      | _ \<Rightarrow> None)"

definition mk_ranked :: "(string \<times> json) list \<Rightarrow> candidate \<Rightarrow> ranked_result" where
  "mk_ranked ranking candidate =
     \<lparr>r_rank = dict_get ranking ''rank'' (JInt 0),
      r_ticket_number = cand_ticket_number candidate,
      r_kb_article_id = cand_kb_article_id candidate,
      r_script_id = cand_script_id candidate,
      r_script_text = cand_script_text candidate,
      r_rationale = dict_get ranking ''rationale'' (JStr []),
      r_module = cand_module candidate,
      r_category = cand_category candidate,
      r_status = cand_status candidate,
      r_tier = cand_tier candidate\<rparr>"

fun build_ranked :: "candidate list \<Rightarrow> json list \<Rightarrow> ranked_result list \<Rightarrow> error + ranked_result list" where
  "build_ranked candidates [] ranked_results = Inr ranked_results"
| "build_ranked candidates (ranking # rest) ranked_results =
     (case ranking of
        JObj d \<Rightarrow>
          (case py_int (dict_get d ''index'' (JInt (- 1))) of
             None \<Rightarrow> Inl (OtherError ''TypeError'')
           | Some idx \<Rightarrow>
               (if idx < 0 \<or> idx \<ge> int (length candidates)
                then build_ranked candidates rest ranked_results
                else build_ranked candidates rest
                       (ranked_results @ [mk_ranked d (candidates ! nat idx)])))
      | _ \<Rightarrow> Inl (OtherError ''AttributeError''))"

text \<open>
  Iterating over \<open>rankings\<close>: an array gives its entries; a string gives its characters
  and an object its keys, on which \<open>.get\<close> is an AttributeError; a number is not iterable.
\<close>

definition assemble :: "candidate list \<Rightarrow> json \<Rightarrow> error + ranked_result list" where
  "assemble candidates rankings =
     (case rankings of
        JArr entries \<Rightarrow> build_ranked candidates entries []
      | JStr _ \<Rightarrow> Inl (OtherError ''AttributeError'')
      | JObj _ \<Rightarrow> Inl (OtherError ''AttributeError'')
      | _ \<Rightarrow> Inl (OtherError ''TypeError''))"

text \<open>
  \<open>ranked_results.sort(key=lambda x: x["rank"])\<close> is a stable sort. With fewer than two
  results no two keys are compared. Numbers are ordered with numbers and strings with
  strings; a comparison of anything else raises TypeError. Ranks that are all arrays,
  which Python also orders, are outside the model, which answers TypeError for them.
\<close>

definition rank_number :: "ranked_result \<Rightarrow> int" where
  "rank_number r = (case py_int (r_rank r) of Some i \<Rightarrow> i | None \<Rightarrow> 0)"

definition rank_string :: "ranked_result \<Rightarrow> string" where
  "rank_string r = (case r_rank r of JStr s \<Rightarrow> s | _ \<Rightarrow> [])"

definition sort_by_rank :: "ranked_result list \<Rightarrow> error + ranked_result list" where
  "sort_by_rank rs =
     (if length rs \<le> 1 then Inr rs
      else if list_all (\<lambda>r. py_int (r_rank r) \<noteq> None) rs then Inr (sort_key rank_number rs)
      else if list_all (\<lambda>r. case r_rank r of JStr _ \<Rightarrow> True | _ \<Rightarrow> False) rs
           then Inr (sort_key rank_string rs)
      else Inl (OtherError ''TypeError''))"

definition no_match_result :: "string \<Rightarrow> result" where
  "no_match_result question =
     [(''ranked_results'', RList []), (''question'', RStr question), (''no_match'', RBool True)]"

definition parse_and_assemble :: "env \<Rightarrow> string \<Rightarrow> string \<Rightarrow> candidate list \<Rightarrow> string \<Rightarrow> error + result" where
  "parse_and_assemble ev question0 question candidates response_text =
     (case decode_rankings ev response_text of
        Inl e \<Rightarrow> Inl e
      | Inr rankings \<Rightarrow>
          (if json_falsy rankings then Inr (no_match_result question)
           else (case assemble candidates rankings of
                   Inl e \<Rightarrow> Inl e
                 | Inr ranked_results \<Rightarrow>
                     (case sort_by_rank ranked_results of
                        Inl e \<Rightarrow> Inl e
                      | Inr sorted_results \<Rightarrow>
                          (let result = [(''ranked_results'', RList sorted_results),
                                         (''question'', RStr question),
                                         (''no_match'', RBool False)]
                           in Inr (case outgoing_hook ev of
                                     None \<Rightarrow> result
                                   | Some h \<Rightarrow> h result question0))))))"

subsection \<open>The whole of \<open>compare\<close>\<close>

text \<open>The question after the incoming hook, which receives it twice: as such and in the context.\<close>

definition hooked_question :: "env \<Rightarrow> string \<Rightarrow> string" where
  "hooked_question ev question0 =
     (case incoming_hook ev of None \<Rightarrow> question0 | Some h \<Rightarrow> h question0 question0)"

definition compare ::
  "env \<Rightarrow> string \<Rightarrow> string \<Rightarrow> string \<Rightarrow> int \<Rightarrow> string \<Rightarrow> event list \<times> (error + result)" where
  "compare ev question0 chroma_path db_path top_k model =
     (let question = hooked_question ev question0
      in if \<not> path_exists ev chroma_path
         then ([], Inl (AgentError (''Chroma index not found: '' @ chroma_path)))
         else then_stage (embedding_query ev chroma_path question top_k) (\<lambda>results.
           (let ticket_numbers = retrieved_ticket_numbers results
            in if ticket_numbers = []
               then ([], Inr [(''winner'', RNone), (''candidates'', RList []),
                              (''question'', RStr question), (''no_match'', RBool True)])
               else then_stage (hydrate_stage ev db_path ticket_numbers) (\<lambda>candidates.
                 if candidates = [] then ([], Inr (no_match_result question))
                 else then_stage (rank_stage ev model question candidates) (\<lambda>response_text.
                   ([], parse_and_assemble ev question0 question candidates response_text))))))"


section \<open>Example stores and collaborators\<close>

text \<open>
  Concrete inputs on which the properties below are evaluated: two ticket rows, a
  collection whose answer names the first ticket twice, and collaborators that all answer.
\<close>

definition ticket_T1 :: ticket_row where
  "ticket_T1 =
     \<lparr>tr_Ticket_Number = Some ''T1'', tr_Status = Some ''Closed'', tr_Tier = Some ''2'',
      tr_Module = Some ''Billing'', tr_Category = Some ''Invoice'',
      tr_Resolution = Some ''Reissued the invoice'', tr_KB_Article_ID = Some ''KB-1'',
      tr_Script_ID = Some ''S1'', tr_Description = Some ''Invoice total is wrong''\<rparr>"

definition ticket_T2 :: ticket_row where
  "ticket_T2 =
     \<lparr>tr_Ticket_Number = Some ''T2'', tr_Status = Some ''Open'', tr_Tier = Some ''1'',
      tr_Module = Some ''Login'', tr_Category = Some ''Password'',
      tr_Resolution = None, tr_KB_Article_ID = None,
      tr_Script_ID = None, tr_Description = Some ''Cannot sign in''\<rparr>"

definition ticket_meta :: "string \<Rightarrow> nat \<Rightarrow> metadata" where
  "ticket_meta tid i =
     [(''source_type'', MStr ''ticket''), (''source_id'', MStr tid), (''chunk_index'', MInt (int i))]"

definition demo_results :: query_result where
  "demo_results =
     \<lparr>qr_documents = Some [[''Invoice total is wrong'', ''Cannot sign in'', ''Reissued'']],
      qr_metadatas = Some [[ticket_meta ''T1'' 0, ticket_meta ''T2'' 0, ticket_meta ''T1'' 1]],
      qr_distances = Some [[1 / 10, 2 / 10, 3 / 10]]\<rparr>"

definition demo_collection :: collection where
  "demo_collection = \<lparr>col_count = 3, col_query = (\<lambda>q n w. Inr demo_results)\<rparr>"

definition demo_decision :: json where
  "demo_decision =
     JObj [(''rankings'',
            JArr [JObj [(''index'', JInt 1), (''rank'', JInt 1), (''rationale'', JStr ''best fit'')],
                  JObj [(''index'', JInt 0), (''rank'', JInt 2), (''rationale'', JStr ''partial fit'')]])]"

definition demo_env :: env where
  "demo_env =
     \<lparr>incoming_hook = None,
      outgoing_hook = None,
      path_exists = (\<lambda>p. True),
      get_collection = (\<lambda>p n. Inr demo_collection),
      db_connect = (\<lambda>p. Inr ()),
      db_ticket = (\<lambda>k. Inr (if k = MStr ''T1'' then Some ticket_T1
                             else if k = MStr ''T2'' then Some ticket_T2 else None)),
      db_script = (\<lambda>sid. Inr (if sid = ''S1'' then Some (Some ''restart billing'') else None)),
      getenv_OPENAI_API_KEY = Some ''sk-test'',
      openai_client = (\<lambda>k. Inr ()),
      chat_completions = (\<lambda>m q cs. Inr [Some ''{rankings}'']),
      json_loads = (\<lambda>t. if t = ''{rankings}'' then Inr demo_decision else Inl ''Expecting value'')\<rparr>"

definition skipped_db :: db where
  "skipped_db =
     \<lparr>db_Tickets = Inr [\<lparr>tc_Ticket_Number = None, tc_Description = Some ''lost'', tc_Resolution = None\<rparr>],
      db_Scripts_Master = Inr [],
      db_Knowledge_Articles = Inr []\<rparr>"

definition old_store :: vector_store where
  "old_store =
     [''supportmind'' \<mapsto>
        [\<lparr>e_id = ''ticket_T1_0'', e_document = ''Invoice total is wrong'',
          e_metadata = ticket_meta ''T1'' 0\<rparr>]]"

definition kb_db :: db where
  "kb_db =
     \<lparr>db_Tickets = Inr [], db_Scripts_Master = Inr [],
      db_Knowledge_Articles =
        Inr [\<lparr>kc_KB_Article_ID = Some '' KB-1'', kc_Title = Some ''T'', kc_Body = Some ''B''\<rparr>]\<rparr>"

definition no_ticket_collection :: collection where
  "no_ticket_collection =
     \<lparr>col_count = 1,
      col_query = (\<lambda>q n w. Inr \<lparr>qr_documents = Some [[]], qr_metadatas = Some [[]],
                                 qr_distances = Some [[]]\<rparr>)\<rparr>"

definition no_hits_env :: env where
  "no_hits_env = demo_env\<lparr>get_collection := (\<lambda>p n. Inr no_ticket_collection)\<rparr>"

text \<open>
  What a log of calls shows of the hydration, and the source ids that a list of metadata
  dictionaries carries, in order.
\<close>

fun ticket_queries :: "event list \<Rightarrow> mval list" where
  "ticket_queries [] = []"
| "ticket_queries (TicketQuery t # es) = t # ticket_queries es"
| "ticket_queries (e # es) = ticket_queries es"

definition source_ids :: "metadata list \<Rightarrow> mval list" where
  "source_ids metas = List.map_filter (\<lambda>meta. map_of meta ''source_id'') metas"

text \<open>
  A ranking entry as the service is asked to send it: an object whose \<open>index\<close> and
  \<open>rank\<close>, where present, are numbers. Its index, whether the index names a candidate,
  and the result assembled from it.
\<close>

definition well_typed_entry :: "json \<Rightarrow> bool" where
  "well_typed_entry e =
     (case e of
        JObj d \<Rightarrow> py_int (dict_get d ''index'' (JInt (- 1))) \<noteq> None \<and>
                  py_int (dict_get d ''rank'' (JInt 0)) \<noteq> None
      | _ \<Rightarrow> False)"

definition entry_fields :: "json \<Rightarrow> (string \<times> json) list" where
  "entry_fields e = (case e of JObj d \<Rightarrow> d | _ \<Rightarrow> [])"

definition entry_index :: "json \<Rightarrow> int" where
  "entry_index e =
     (case py_int (dict_get (entry_fields e) ''index'' (JInt (- 1))) of Some i \<Rightarrow> i | None \<Rightarrow> - 1)"

definition in_range :: "candidate list \<Rightarrow> json \<Rightarrow> bool" where
  "in_range candidates e = (0 \<le> entry_index e \<and> entry_index e < int (length candidates))"

definition ranked_of :: "candidate list \<Rightarrow> json \<Rightarrow> ranked_result" where
  "ranked_of candidates e = mk_ranked (entry_fields e) (candidates ! nat (entry_index e))"

definition demo_candidates :: "candidate list" where
  "demo_candidates = [mk_candidate ticket_T1 ''restart billing'', mk_candidate ticket_T2 []]"

definition shuffled_entries :: "json list" where
  "shuffled_entries =
     [JObj [(''index'', JInt 0), (''rank'', JInt 2), (''rationale'', JStr ''partial fit'')],
      JObj [(''index'', JInt 5), (''rank'', JInt 0), (''rationale'', JStr ''no such candidate'')],
      JObj [(''index'', JInt 1), (''rank'', JInt 1), (''rationale'', JStr ''best fit'')]]"

definition shuffled_decision :: json where
  "shuffled_decision = JObj [(''rankings'', JArr shuffled_entries)]"

definition shuffled_env :: env where
  "shuffled_env = demo_env\<lparr>json_loads := (\<lambda>t. Inr shuffled_decision)\<rparr>"

text \<open>
  Collaborators whose ranking service answers with one choice of a given content, and a
  response in a markdown fence: optional whitespace, the opening line of three backticks
  and a language tag, the body, the closing line of three backticks, optional whitespace.
\<close>

definition answering :: "env \<Rightarrow> string \<Rightarrow> env" where
  "answering ev content = ev\<lparr>chat_completions := (\<lambda>m q cs. Inr [Some content])\<rparr>"

definition fenced :: "string \<Rightarrow> string \<Rightarrow> string \<Rightarrow> string \<Rightarrow> string" where
  "fenced pre lang body post = pre @ ''```'' @ lang @ [CHR 10] @ body @ [CHR 10] @ ''```'' @ post"

text \<open>
  What the retriever expects of the vector store: a query for \<open>n\<close> results answers with
  at most \<open>n\<close> documents.
\<close>

definition answers_at_most :: "query_result \<Rightarrow> int \<Rightarrow> bool" where
  "answers_at_most results n =
     (case qr_documents results of Some (docs # _) \<Rightarrow> int (length docs) \<le> n | _ \<Rightarrow> True)"

section \<open>Properties of the chunker\<close>

subsection \<open>The loop of \<open>_sliding_chunks\<close>\<close>

text \<open>
  With \<open>0 \<le> overlap < size\<close> the loop started inside the text returns: it appends a
  non-empty list of windows, window \<open>i\<close> is the slice that starts \<open>i\<close> steps after
  \<open>start\<close>, every window but the last ends before the end of the text and the last one
  reaches it.
\<close>

lemma sliding_loop_windows:
  assumes ov: "0 \<le> overlap" "overlap < sz"
  shows "0 \<le> start \<Longrightarrow> start < int (length text) \<Longrightarrow>
    \<exists>ws. sliding_loop text sz overlap start chunks = Some (chunks @ ws) \<and> ws \<noteq> [] \<and>
      (\<forall>i<length ws. ws ! i = py_slice text (start + int i * (sz - overlap)) (start + int i * (sz - overlap) + sz)) \<and>
      (\<forall>i. Suc i < length ws \<longrightarrow> start + int i * (sz - overlap) + sz < int (length text)) \<and>
      int (length text) \<le> start + int (length ws - 1) * (sz - overlap) + sz"
proof (induction "nat (int (length text) - start)" arbitrary: start chunks rule: less_induct)
  case less
  let ?e = "start + sz"
  let ?w = "py_slice text start ?e"
  show ?case
  proof (cases "int (length text) \<le> ?e")
    case True
    then have "sliding_loop text sz overlap start chunks = Some (chunks @ [?w])"
      using less.prems by (subst sliding_loop.simps) (simp add: Let_def)
    then show ?thesis using True
      by (intro exI[of _ "[?w]"]) simp
  next
    case False
    let ?s = "?e - overlap"
    have s0: "0 \<le> ?s" "?s < int (length text)" using False less.prems ov by auto
    have m: "nat (int (length text) - ?s) < nat (int (length text) - start)"
      using ov less.prems by auto
    from less.hyps[OF m s0, of "chunks @ [?w]"]
    obtain ws where ws: "sliding_loop text sz overlap ?s (chunks @ [?w]) = Some ((chunks @ [?w]) @ ws)"
      "ws \<noteq> []"
      "\<forall>i<length ws. ws ! i = py_slice text (?s + int i * (sz - overlap)) (?s + int i * (sz - overlap) + sz)"
      "\<forall>i. Suc i < length ws \<longrightarrow> ?s + int i * (sz - overlap) + sz < int (length text)"
      "int (length text) \<le> ?s + int (length ws - 1) * (sz - overlap) + sz"
      by blast
    have eq: "sliding_loop text sz overlap start chunks = Some (chunks @ (?w # ws))"
      using False less.prems ws(1) by (subst sliding_loop.simps) (simp add: Let_def)
    have shift: "\<And>i. ?s + int i * (sz - overlap) = start + int (Suc i) * (sz - overlap)"
      by (simp add: algebra_simps)
    have a: "\<forall>i<length (?w # ws). (?w # ws) ! i =
        py_slice text (start + int i * (sz - overlap)) (start + int i * (sz - overlap) + sz)"
    proof (intro allI impI)
      fix i assume "i < length (?w # ws)"
      then show "(?w # ws) ! i =
        py_slice text (start + int i * (sz - overlap)) (start + int i * (sz - overlap) + sz)"
        using ws(3) shift by (cases i) auto
    qed
    have b: "\<forall>i. Suc i < length (?w # ws) \<longrightarrow> start + int i * (sz - overlap) + sz < int (length text)"
    proof (intro allI impI)
      fix i assume "Suc i < length (?w # ws)"
      then show "start + int i * (sz - overlap) + sz < int (length text)"
        using ws(4) shift False by (cases i) auto
    qed
    have c: "int (length text) \<le> start + int (length (?w # ws) - 1) * (sz - overlap) + sz"
    proof -
      obtain k where k: "length ws = Suc k" using ws(2) by (cases ws) auto
      show ?thesis using ws(5) shift[of k] k by simp
    qed
    show ?thesis using eq a b c by (intro exI[of _ "?w # ws"]) simp
  qed
qed

text \<open>With \<open>size \<le> overlap\<close> the start never advances, and no run of the loop returns.\<close>

lemma sliding_loop_diverges_aux:
  assumes run: "sliding_loop t sz overlap start chunks = Some r"
  shows "\<not> (t \<noteq> [] \<and> sz < int (length t) \<and> sz \<le> overlap \<and> start \<le> 0)"
proof (rule sliding_loop.raw_induct[where P = "\<lambda>t sz overlap start chunks r.
         \<not> (t \<noteq> [] \<and> sz < int (length t) \<and> sz \<le> overlap \<and> start \<le> 0)", OF _ run])
  fix f t sz overlap start chunks r
  assume IH: "\<And>t sz overlap start chunks r. f t sz overlap start chunks = Some r \<Longrightarrow>
         \<not> (t \<noteq> [] \<and> sz < int (length t) \<and> sz \<le> overlap \<and> start \<le> 0)"
    and body: "(if start < int (length t)
         then let end' = start + sz; chunks' = chunks @ [py_slice t start end']
              in if int (length t) \<le> end' then Some chunks'
                 else f t sz overlap (end' - overlap) chunks'
         else Some chunks) = Some r"
  show "\<not> (t \<noteq> [] \<and> sz < int (length t) \<and> sz \<le> overlap \<and> start \<le> 0)"
  proof
    assume inv: "t \<noteq> [] \<and> sz < int (length t) \<and> sz \<le> overlap \<and> start \<le> 0"
    then have "start < int (length t)" "\<not> int (length t) \<le> start + sz"
      by (cases t; simp)+
    then have "f t sz overlap (start + sz - overlap) (chunks @ [py_slice t start (start + sz)]) = Some r"
      using body by (simp add: Let_def)
    from IH[OF this] inv show False by simp
  qed
qed

lemma sliding_loop_diverges:
  "t \<noteq> [] \<Longrightarrow> sz < int (length t) \<Longrightarrow> sz \<le> overlap \<Longrightarrow> start \<le> 0 \<Longrightarrow>
     sliding_loop t sz overlap start chunks = None"
  using sliding_loop_diverges_aux[of t sz overlap start chunks]
  by (cases "sliding_loop t sz overlap start chunks") auto

lemma py_slice_window:
  "0 \<le> a \<Longrightarrow> 0 \<le> sz \<Longrightarrow> py_slice xs a (a + sz) = take (nat sz) (drop (nat a) xs)"
  by (auto simp: py_slice_def py_bound_def min_def nat_add_distrib Let_def)

subsection \<open>Windows of a long text\<close>

text \<open>
  Claim C2. For a text whose trimmed length exceeds \<open>size\<close> and \<open>0 \<le> overlap < size\<close>,
  \<open>_sliding_chunks\<close> returns a non-empty list of windows of the trimmed text: window \<open>i\<close>
  starts at position \<open>i * (size - overlap)\<close> and takes \<open>size\<close> characters, every window
  but the last has length exactly \<open>size\<close>, the first \<open>overlap\<close> characters of each next
  window are the last \<open>overlap\<close> characters of the window before it (and the next window
  goes on beyond them), and the last window ends at the end of the trimmed text.
\<close>

theorem sliding_chunks_windows:
  assumes len: "sz < int (length (strip T))" and ov: "0 \<le> overlap" "overlap < sz"
  shows "\<exists>ws. sliding_chunks T sz overlap = Some ws \<and> ws \<noteq> [] \<and>
     (\<forall>i<length ws. ws ! i = take (nat sz) (drop (i * nat (sz - overlap)) (strip T))) \<and>
     (\<forall>i. Suc i < length ws \<longrightarrow> length (ws ! i) = nat sz) \<and>
     (\<forall>i. Suc i < length ws \<longrightarrow>
          take (nat overlap) (ws ! Suc i) = drop (nat sz - nat overlap) (ws ! i) \<and>
          nat overlap < length (ws ! Suc i)) \<and>
     (length ws - 1) * nat (sz - overlap) + length (last ws) = length (strip T)"
proof -
  let ?t = "strip T" and ?st = "nat (sz - overlap)"
  have T: "T \<noteq> []" using len ov by (auto simp: strip_def)
  have t0: "(0::int) < int (length ?t)" using len ov by linarith
  from sliding_loop_windows[OF ov, of 0 ?t "[]"] t0
  obtain ws where ws: "sliding_loop ?t sz overlap 0 [] = Some ws" "ws \<noteq> []"
    and sl: "\<forall>i<length ws. ws ! i = py_slice ?t (int i * (sz - overlap)) (int i * (sz - overlap) + sz)"
    and full: "\<forall>i. Suc i < length ws \<longrightarrow> int i * (sz - overlap) + sz < int (length ?t)"
    and fin: "int (length ?t) \<le> int (length ws - 1) * (sz - overlap) + sz"
    by auto
  have pos: "\<And>i. nat (int i * (sz - overlap)) = i * ?st"
    using ov by (simp add: nat_mult_distrib)
  have win: "\<forall>i<length ws. ws ! i = take (nat sz) (drop (i * ?st) ?t)"
  proof (intro allI impI)
    fix i assume "i < length ws"
    then have "ws ! i = py_slice ?t (int i * (sz - overlap)) (int i * (sz - overlap) + sz)"
      using sl by blast
    also have "\<dots> = take (nat sz) (drop (nat (int i * (sz - overlap))) ?t)"
      using ov by (intro py_slice_window) auto
    finally show "ws ! i = take (nat sz) (drop (i * ?st) ?t)" by (simp add: pos)
  qed
  have fullnat: "\<And>i. Suc i < length ws \<Longrightarrow> i * ?st + nat sz < length ?t"
  proof -
    fix i assume "Suc i < length ws"
    then have "int i * (sz - overlap) + sz < int (length ?t)" using full by blast
    moreover have "int (i * ?st + nat sz) = int i * (sz - overlap) + sz" using ov by simp
    ultimately show "i * ?st + nat sz < length ?t" by linarith
  qed
  have lens: "\<forall>i. Suc i < length ws \<longrightarrow> length (ws ! i) = nat sz"
  proof (intro allI impI)
    fix i assume i: "Suc i < length ws"
    then have "ws ! i = take (nat sz) (drop (i * ?st) ?t)" using win by simp
    then show "length (ws ! i) = nat sz" using fullnat[OF i] by simp
  qed
  have share: "\<forall>i. Suc i < length ws \<longrightarrow>
          take (nat overlap) (ws ! Suc i) = drop (nat sz - nat overlap) (ws ! i) \<and>
          nat overlap < length (ws ! Suc i)"
  proof (intro allI impI)
    fix i assume i: "Suc i < length ws"
    define m n where "m = nat overlap" and "n = nat sz"
    have mn: "m < n" "?st = n - m" using ov by (auto simp: m_def n_def)
    have a: "ws ! i = take n (drop (i * (n - m)) ?t)" using win i mn by (simp add: n_def)
    have b: "ws ! Suc i = take n (drop (Suc i * (n - m)) ?t)" using win i mn by (simp add: n_def)
    have f: "i * (n - m) + n < length ?t" using fullnat[OF i] mn by (simp add: n_def)
    have "drop (n - m) (ws ! i) = take m (drop (Suc i * (n - m)) ?t)"
      using mn(1) by (simp add: a drop_take add.commute)
    moreover have "take m (ws ! Suc i) = take m (drop (Suc i * (n - m)) ?t)"
      using mn(1) by (simp add: b min_def)
    moreover have "m < length (ws ! Suc i)"
      using f mn(1) by (simp add: b)
    ultimately show "take (nat overlap) (ws ! Suc i) = drop (nat sz - nat overlap) (ws ! i) \<and>
          nat overlap < length (ws ! Suc i)" by (simp add: m_def n_def)
  qed
  have lastw: "(length ws - 1) * ?st + length (last ws) = length ?t"
  proof -
    let ?k = "length ws - 1"
    have k: "?k < length ws" using ws(2) by (cases ws) auto
    have l: "last ws = take (nat sz) (drop (?k * ?st) ?t)"
      using win k ws(2) by (simp add: last_conv_nth)
    have lo: "?k * ?st < length ?t"
    proof (cases ?k)
      case 0 then show ?thesis using t0 by simp
    next
      case (Suc j)
      then have "Suc j < length ws" using k by simp
      from fullnat[OF this] have "j * ?st + nat sz < length ?t" .
      moreover have "?st \<le> nat sz" using ov by simp
      ultimately show ?thesis using Suc by simp
    qed
    have hi: "length ?t \<le> ?k * ?st + nat sz"
    proof -
      have "int (?k * ?st + nat sz) = int ?k * (sz - overlap) + sz" using ov by simp
      then show ?thesis using fin by linarith
    qed
    show ?thesis using lo hi by (simp add: l min_def)
  qed
  have "sliding_chunks T sz overlap = Some ws"
    using T len ws(1) by (simp add: sliding_chunks_def Let_def)
  then show ?thesis using ws(2) win lens share lastw by blast
qed

theorem sliding_chunks_windows_witness:
  "5 < int (length (strip ''  hello world  '')) \<and> (0::int) \<le> 2 \<and> (2::int) < 5 \<and>
   (\<exists>ws. sliding_chunks ''  hello world  '' 5 2 = Some ws \<and> ws \<noteq> [] \<and>
     (\<forall>i<length ws. ws ! i = take (nat 5) (drop (i * nat (5 - 2)) (strip ''  hello world  ''))) \<and>
     (\<forall>i. Suc i < length ws \<longrightarrow> length (ws ! i) = nat 5) \<and>
     (\<forall>i. Suc i < length ws \<longrightarrow>
          take (nat 2) (ws ! Suc i) = drop (nat 5 - nat 2) (ws ! i) \<and>
          nat 2 < length (ws ! Suc i)) \<and>
     (length ws - 1) * nat (5 - 2) + length (last ws) = length (strip ''  hello world  ''))"
proof -
  have h: "5 < int (length (strip ''  hello world  ''))"
    by (simp add: strip_def py_isspace_def)
  show ?thesis
    using h sliding_chunks_windows [OF h, of 2] by simp
qed

subsection \<open>An overlap that is not smaller than the size\<close>

text \<open>
  Claim C3, as stated, fails: with \<open>size = overlap = 2\<close> the split of \<open>abc\<close> does not
  return at all, so it does not end with an error.
\<close>

theorem sliding_chunks_no_fail_fast_counterexample:
  "sliding_chunks ''abc'' 2 2 = None"
proof -
  have "strip ''abc'' = ''abc''" by (simp add: strip_def py_isspace_def)
  then show ?thesis
    using sliding_loop_diverges [of "''abc''" 2 2 0 "[]"]
    by (simp add: sliding_chunks_def)
qed

text \<open>
  Claim C3, amended. No check of \<open>overlap < size\<close> is made: for a text that is not empty
  after trimming and longer than \<open>size\<close>, and \<open>overlap \<ge> size\<close>, \<open>_sliding_chunks\<close>
  never returns.
\<close>

theorem sliding_chunks_never_returns:
  assumes "strip T \<noteq> []" and "sz < int (length (strip T))" and "sz \<le> overlap"
  shows "sliding_chunks T sz overlap = None"
proof -
  have "T \<noteq> []" using assms(1) by (auto simp: strip_def)
  then show ?thesis
    using assms sliding_loop_diverges [of "strip T" sz overlap 0 "[]"]
    by (simp add: sliding_chunks_def)
qed

theorem sliding_chunks_never_returns_witness:
  "strip ''hello world'' \<noteq> [] \<and> 3 < int (length (strip ''hello world'')) \<and> (3::int) \<le> 5 \<and>
   sliding_chunks ''hello world'' 3 5 = None"
proof -
  have h: "strip ''hello world'' = ''hello world''" by (simp add: strip_def py_isspace_def)
  show ?thesis
    using h sliding_chunks_never_returns [of "''hello world''" 3 5] by simp
qed

section \<open>Properties of the indexer\<close>

subsection \<open>A build that produces no chunk\<close>

text \<open>
  Claim C10. When the store yields no chunk, \<open>build_index\<close> has still deleted the
  collection of the configured name and created it anew, empty, and returns 0: whatever
  the collection held before is gone, and nothing is written into it.
\<close>

theorem build_index_empty_store_resets:
  assumes "load_chunks_from_db d chunk_size chunk_overlap = Some (Inr [])"
  shows "build_index d store collection_name chunk_size chunk_overlap =
           Some (store(collection_name \<mapsto> []), Inr 0)"
  using assms by (simp add: build_index_def)

theorem build_index_empty_store_resets_witness:
  "load_chunks_from_db skipped_db 600 100 = Some (Inr []) \<and>
   old_store ''supportmind'' \<noteq> Some [] \<and>
   build_index skipped_db old_store ''supportmind'' 600 100 =
     Some (old_store(''supportmind'' \<mapsto> []), Inr 0) \<and>
   (old_store(''supportmind'' \<mapsto> [])) ''supportmind'' = Some []"
proof -
  have h: "load_chunks_from_db skipped_db 600 100 = Some (Inr [])"
    by (simp add: load_chunks_from_db_def skipped_db_def safe_str_def)
  show ?thesis
    using h build_index_empty_store_resets [OF h, of old_store "''supportmind''"]
    by (simp add: old_store_def)
qed


subsection \<open>Incremental add against the full build\<close>

text \<open>
  Claim C7 fails on an article id with surrounding whitespace. The full build trims the
  id of the row (\<open>_safe_str\<close> in \<open>chunks_from_kb\<close>), \<open>add_kb_article_to_index\<close> trims title
  and body only: for the id \<open>" KB-1"\<close> the build writes the identifier \<open>kb_KB-1_0\<close> with
  source id \<open>KB-1\<close>, the incremental add writes \<open>kb_ KB-1_0\<close> with source id \<open>" KB-1"\<close>.
\<close>

theorem add_kb_article_untrimmed_id_differs:
  "build_index kb_db (Map.empty(''supportmind'' \<mapsto> [])) ''supportmind'' 600 100 =
     Some (Map.empty(''supportmind'' \<mapsto>
             [\<lparr>e_id = ''kb_KB-1_0'', e_document = ''Title: T'' @ [CHR 10, CHR 10] @ ''B'',
               e_metadata = [(''source_type'', MStr ''kb''), (''source_id'', MStr ''KB-1''),
                             (''chunk_index'', MInt 0)]\<rparr>]), Inr 1) \<and>
   add_kb_article_to_index '' KB-1'' (Some ''T'') (Some ''B'')
       (Map.empty(''supportmind'' \<mapsto> [])) ''supportmind'' 600 100 =
     Some (Map.empty(''supportmind'' \<mapsto>
             [\<lparr>e_id = ''kb_ KB-1_0'', e_document = ''Title: T'' @ [CHR 10, CHR 10] @ ''B'',
               e_metadata = [(''source_type'', MStr ''kb''), (''source_id'', MStr '' KB-1''),
                             (''chunk_index'', MInt 0)]\<rparr>]), Inr 1)"
proof -
  have st: "strip '' KB-1'' = ''KB-1''" "strip ''T'' = ''T''" "strip ''B'' = ''B''"
    "strip (''Title: T'' @ [CHR 10, CHR 10] @ ''B'') = ''Title: T'' @ [CHR 10, CHR 10] @ ''B''"
    by (simp_all add: strip_def py_isspace_def)
  have sc: "sliding_chunks (''Title: T'' @ [CHR 10, CHR 10] @ ''B'') 600 100 =
              Some [''Title: T'' @ [CHR 10, CHR 10] @ ''B'']"
    using st(4) by (simp add: sliding_chunks_def)
  have b: "load_chunks_from_db kb_db 600 100 =
     Some (Inr [\<lparr>c_text = ''Title: T'' @ [CHR 10, CHR 10] @ ''B'', c_source_type = ''kb'',
                 c_source_id = ''KB-1'', c_chunk_index = 0\<rparr>])"
    using st sc by (simp add: load_chunks_from_db_def kb_db_def safe_str_def kb_combined_def mk_chunks_def enumerate_eq_zip)
  have one: "str_nat 0 = ''0''" by code_simp
  have ab: "\<And>i d m. add_batches [i] [d] [m] 0 [] = [\<lparr>e_id = i, e_document = d, e_metadata = m\<rparr>]"
    by (subst add_batches.simps, subst add_batches.simps) (simp add: collection_add_def)
  have "build_index kb_db (Map.empty(''supportmind'' \<mapsto> [])) ''supportmind'' 600 100 =
     Some (Map.empty(''supportmind'' \<mapsto>
             [\<lparr>e_id = ''kb_KB-1_0'', e_document = ''Title: T'' @ [CHR 10, CHR 10] @ ''B'',
               e_metadata = [(''source_type'', MStr ''kb''), (''source_id'', MStr ''KB-1''),
                             (''chunk_index'', MInt 0)]\<rparr>]), Inr 1)"
    using b one ab by (simp add: build_index_def build_chunk_id_def chunk_metadata_def del: str_nat.simps add_batches.simps)
  moreover have "add_kb_article_to_index '' KB-1'' (Some ''T'') (Some ''B'')
       (Map.empty(''supportmind'' \<mapsto> [])) ''supportmind'' 600 100 =
     Some (Map.empty(''supportmind'' \<mapsto>
             [\<lparr>e_id = ''kb_ KB-1_0'', e_document = ''Title: T'' @ [CHR 10, CHR 10] @ ''B'',
               e_metadata = [(''source_type'', MStr ''kb''), (''source_id'', MStr '' KB-1''),
                             (''chunk_index'', MInt 0)]\<rparr>]), Inr 1)"
    using st sc one by (simp add: add_kb_article_to_index_def safe_str_def kb_combined_def mk_chunks_def
        enumerate_eq_zip kb_chunk_id_def kb_chunk_metadata_def collection_add_def del: str_nat.simps)
  ultimately show ?thesis by blast
qed

text \<open>The batches of \<open>build_index\<close> add up to one \<open>add\<close> of all entries.\<close>

lemma collection_add_append:
  "length d1 = length i1 \<Longrightarrow> length m1 = length i1 \<Longrightarrow>
   collection_add (collection_add col i1 d1 m1) i2 d2 m2 =
     collection_add col (i1 @ i2) (d1 @ d2) (m1 @ m2)"
  by (simp add: collection_add_def)

lemma batch_split:
  "length xs = n \<Longrightarrow> i < n \<Longrightarrow>
   take (min (i + 100) n - i) (drop i xs) @ drop (i + 100) xs = drop i xs"
proof (cases "i + 100 \<le> n")
  case True
  assume "length xs = n" "i < n"
  have "take 100 (drop i xs) @ drop 100 (drop i xs) = drop i xs" by (rule append_take_drop_id)
  then show ?thesis using True by (simp add: min_def add.commute)
next
  case False
  assume "length xs = n" "i < n"
  then show ?thesis using False by (simp add: min_def)
qed

lemma add_batches_all:
  assumes "length documents = length ids" and "length metadatas = length ids"
  shows "add_batches ids documents metadatas i col =
           collection_add col (drop i ids) (drop i documents) (drop i metadatas)"
  using assms
proof (induction ids documents metadatas i col rule: add_batches.induct)
  case (1 ids documents metadatas i col)
  show ?case
  proof (cases "i < length ids")
    case False
    then show ?thesis using "1.prems"
      by (subst add_batches.simps) (simp add: collection_add_def)
  next
    case True
    let ?n = "min (i + 100) (length ids) - i"
    let ?col = "collection_add col (take ?n (drop i ids)) (take ?n (drop i documents))
                  (take ?n (drop i metadatas))"
    have "add_batches ids documents metadatas i col =
            add_batches ids documents metadatas (i + 100) ?col"
      using True by (subst add_batches.simps) (simp add: Let_def)
    also have "\<dots> = collection_add ?col (drop (i + 100) ids) (drop (i + 100) documents)
                        (drop (i + 100) metadatas)"
      using "1.IH" [OF True refl "1.prems"] by simp
    also have "\<dots> = collection_add col
        (take ?n (drop i ids) @ drop (i + 100) ids)
        (take ?n (drop i documents) @ drop (i + 100) documents)
        (take ?n (drop i metadatas) @ drop (i + 100) metadatas)"
      using "1.prems" by (intro collection_add_append) simp_all
    also have "\<dots> = collection_add col (drop i ids) (drop i documents) (drop i metadatas)"
      using batch_split [of ids "length ids" i] batch_split [of documents "length ids" i]
        batch_split [of metadatas "length ids" i] True "1.prems" by (simp only:)
    finally show ?thesis .
  qed
qed

lemma mk_chunks_kb_ids:
  "map build_chunk_id (mk_chunks ''kb'' sid parts) = map kb_chunk_id (mk_chunks ''kb'' sid parts)"
  "map chunk_metadata (mk_chunks ''kb'' sid parts) = map kb_chunk_metadata (mk_chunks ''kb'' sid parts)"
  by (simp_all add: mk_chunks_def build_chunk_id_def kb_chunk_id_def chunk_metadata_def
      kb_chunk_metadata_def split_def)

text \<open>
  For an article id without surrounding whitespace the two paths agree: a build over a
  store that holds only this article leaves the collection as the incremental add to a
  fresh collection leaves it.
\<close>

lemma add_kb_article_matches_build_for_trimmed_id:
  assumes "strip kb_id = kb_id" and "kb_id \<noteq> []"
  shows "build_index \<lparr>db_Tickets = Inr [], db_Scripts_Master = Inr [],
                      db_Knowledge_Articles =
                        Inr [\<lparr>kc_KB_Article_ID = Some kb_id, kc_Title = title, kc_Body = body\<rparr>]\<rparr>
           store name chunk_size chunk_overlap =
         add_kb_article_to_index kb_id title body (store(name \<mapsto> [])) name chunk_size chunk_overlap"
proof (cases "kb_combined (safe_str title) (safe_str body) = []")
  case True
  then show ?thesis using assms
    by (simp add: build_index_def load_chunks_from_db_def add_kb_article_to_index_def safe_str_def)
next
  case False
  let ?c = "kb_combined (safe_str title) (safe_str body)"
  show ?thesis
  proof (cases "sliding_chunks ?c chunk_size chunk_overlap")
    case None
    then show ?thesis using assms False
      by (simp add: build_index_def load_chunks_from_db_def add_kb_article_to_index_def safe_str_def)
  next
    case (Some parts)
    have load: "load_chunks_from_db \<lparr>db_Tickets = Inr [], db_Scripts_Master = Inr [],
                      db_Knowledge_Articles =
                        Inr [\<lparr>kc_KB_Article_ID = Some kb_id, kc_Title = title, kc_Body = body\<rparr>]\<rparr>
             chunk_size chunk_overlap = Some (Inr (mk_chunks ''kb'' kb_id parts))"
      using assms False Some by (simp add: load_chunks_from_db_def safe_str_def)
    let ?cs = "mk_chunks ''kb'' kb_id parts"
    have ab: "add_batches (map kb_chunk_id ?cs) (map c_text ?cs) (map kb_chunk_metadata ?cs) 0 [] =
            collection_add [] (map kb_chunk_id ?cs) (map c_text ?cs) (map kb_chunk_metadata ?cs)"
      by (subst add_batches_all) simp_all
    show ?thesis
    proof (cases "?cs = []")
      case True
      then show ?thesis using load Some False
        by (simp add: build_index_def add_kb_article_to_index_def Let_def)
    next
      case ne: False
      have b: "build_index \<lparr>db_Tickets = Inr [], db_Scripts_Master = Inr [],
                      db_Knowledge_Articles =
                        Inr [\<lparr>kc_KB_Article_ID = Some kb_id, kc_Title = title, kc_Body = body\<rparr>]\<rparr>
           store name chunk_size chunk_overlap =
         Some (store(name \<mapsto> collection_add [] (map kb_chunk_id ?cs) (map c_text ?cs)
                                  (map kb_chunk_metadata ?cs)), Inr (length ?cs))"
        using ne ab by (simp add: build_index_def load Let_def mk_chunks_kb_ids)
      have a: "add_kb_article_to_index kb_id title body (store(name \<mapsto> [])) name chunk_size chunk_overlap =
         Some (store(name \<mapsto> collection_add [] (map kb_chunk_id ?cs) (map c_text ?cs)
                                  (map kb_chunk_metadata ?cs)), Inr (length ?cs))"
        using ne False Some by (simp add: add_kb_article_to_index_def Let_def)
      show ?thesis by (simp only: a b)
    qed
  qed
qed

section \<open>Properties of the agent\<close>

subsection \<open>No ticket retrieved\<close>

text \<open>
  When the similarity query answers and names no ticket, \<open>compare\<close> returns at once,
  having made no call but those of the query.
\<close>

lemma compare_no_tickets:
  assumes "path_exists ev cp"
    and "embedding_query ev cp (hooked_question ev qo) k = (l, Inr results)"
    and "retrieved_ticket_numbers results = []"
  shows "compare ev qo cp dp k model =
           (l, Inr [(''winner'', RNone), (''candidates'', RList []),
                    (''question'', RStr (hooked_question ev qo)), (''no_match'', RBool True)])"
    and "RankingCall model \<notin> set l"
  using assms
  by (auto simp: compare_def Let_def then_stage_def embedding_query_def split: sum.splits)

text \<open>
  Claim C1 on a store that holds one chunk, not of a ticket, and so answers the query for
  tickets with no metadata. One call is made, the similarity
  query, and none to the ranking service; but the dictionary returned has the keys
  \<open>winner\<close>, \<open>candidates\<close>, \<open>question\<close> and \<open>no_match\<close>, and no key \<open>ranked_results\<close>,
  unlike the other two no-match returns and unlike the docstring of \<open>compare\<close>.
\<close>

theorem compare_no_tickets_legacy_shape:
  "compare no_hits_env ''printer offline'' ''data/chroma'' ''data/supportmind.db'' 5 ''gpt-4o-mini'' =
     ([VectorQuery ''printer offline'' 1],
      Inr [(''winner'', RNone), (''candidates'', RList []),
           (''question'', RStr ''printer offline''), (''no_match'', RBool True)]) \<and>
   map_of [(''winner'', RNone), (''candidates'', RList []),
           (''question'', RStr ''printer offline''), (''no_match'', RBool True)] ''ranked_results'' = None"
  by (simp add: compare_def no_hits_env_def demo_env_def no_ticket_collection_def hooked_question_def
      then_stage_def embedding_query_def retrieved_ticket_numbers_def first_nonempty_def Let_def)

subsection \<open>Deduplication of the retrieved tickets\<close>

lemma ticket_queries_append: "ticket_queries (l @ l') = ticket_queries l @ ticket_queries l'"
  by (induction l rule: ticket_queries.induct) auto

lemma ticket_queries_hydrate_aux:
  "hydrate ev ts c = (l, Inr c') \<Longrightarrow> ticket_queries l = ts"
proof (induction ts arbitrary: c l)
  case Nil
  then show ?case by simp
next
  case (Cons t ts)
  then show ?case
    by (fastforce simp: Let_def split: sum.splits option.splits if_splits prod.splits)
qed

lemma ticket_queries_hydrate:
  "snd (hydrate ev ts c) = Inr c' \<Longrightarrow> ticket_queries (fst (hydrate ev ts c)) = ts"
  using ticket_queries_hydrate_aux [of ev ts c "fst (hydrate ev ts c)" c']
  by (cases "hydrate ev ts c") simp

lemma ticket_queries_rank_stage: "ticket_queries (fst (rank_stage ev model q cs)) = []"
  by (auto simp: rank_stage_def split: option.splits sum.splits list.splits)

lemma ticket_queries_embedding: "ticket_queries (fst (embedding_query ev p q k)) = []"
  by (auto simp: embedding_query_def Let_def split: sum.splits)

lemma remdups_drop_seen: "v \<in> set ys \<Longrightarrow> remdups (xs @ v # ys) = remdups (xs @ ys)"
  by (induction xs) auto

lemma extract_ticket_numbers_spec:
  "distinct acc \<Longrightarrow>
   extract_ticket_numbers metas acc = rev (remdups (rev (acc @ filter truthy (source_ids metas))))"
proof (induction metas arbitrary: acc)
  case Nil
  then have "rev (remdups (rev acc)) = acc" by (simp add: distinct_remdups_id)
  then show ?case by (simp add: source_ids_def)
next
  case (Cons meta metas)
  show ?case
  proof (cases "map_of meta ''source_id''")
    case None
    then show ?thesis using Cons by (simp add: source_ids_def map_filter_simps)
  next
    case (Some v)
    show ?thesis
    proof (cases "truthy v \<and> v \<notin> set acc")
      case True
      then have "distinct (acc @ [v])" using Cons.prems by simp
      from Cons.IH[OF this] True Some show ?thesis
        by (simp add: source_ids_def map_filter_simps)
    next
      case False
      then show ?thesis using Cons Some
        by (auto simp: source_ids_def map_filter_simps remdups_drop_seen)
    qed
  qed
qed

text \<open>
  Claim C5. When the similarity query answers and the relational store can be read, the
  ticket queries that \<open>compare\<close> issues are exactly the retrieved ticket numbers, one query
  each, in their order; these are distinct, they are the non-empty source ids of the
  chunks, and they stand in the order of their first occurrence (\<open>remdups\<close> keeps the last
  occurrence of each element, so between the two reversals it keeps the first).
\<close>

theorem compare_hydrates_each_ticket_once:
  assumes "path_exists ev chroma_path"
    and "snd (embedding_query ev chroma_path (hooked_question ev question0) top_k) = Inr results"
    and "path_exists ev db_path"
    and "db_connect ev db_path = Inr u"
    and "snd (hydrate ev (retrieved_ticket_numbers results) []) = Inr candidates"
  shows "ticket_queries (fst (compare ev question0 chroma_path db_path top_k model)) =
           retrieved_ticket_numbers results \<and>
         distinct (retrieved_ticket_numbers results) \<and>
         set (retrieved_ticket_numbers results) =
           {v \<in> set (source_ids (case first_nonempty (qr_metadatas results) of None \<Rightarrow> [] | Some ms \<Rightarrow> ms)).
              truthy v} \<and>
         retrieved_ticket_numbers results =
           rev (remdups (rev (filter truthy
             (source_ids (case first_nonempty (qr_metadatas results) of None \<Rightarrow> [] | Some ms \<Rightarrow> ms)))))"
proof -
  let ?q = "hooked_question ev question0"
  let ?ts = "retrieved_ticket_numbers results"
  let ?ms = "case first_nonempty (qr_metadatas results) of None \<Rightarrow> [] | Some ms \<Rightarrow> ms"
  have spec: "?ts = rev (remdups (rev (filter truthy (source_ids ?ms))))"
    using extract_ticket_numbers_spec [of "[]"]
    by (simp add: retrieved_ticket_numbers_def source_ids_def split: option.splits)
  have dist: "distinct ?ts" by (subst spec) simp
  have st: "set ?ts = {v \<in> set (source_ids ?ms). truthy v}" by (subst spec) auto
  obtain l1 where e: "embedding_query ev chroma_path ?q top_k = (l1, Inr results)"
    using assms(2) by (cases "embedding_query ev chroma_path ?q top_k") auto
  have l1: "ticket_queries l1 = []"
    using ticket_queries_embedding [of ev chroma_path ?q top_k] e by simp
  obtain l2 where h: "hydrate ev ?ts [] = (l2, Inr candidates)"
    using assms(5) by (cases "hydrate ev ?ts []") auto
  have l2: "ticket_queries l2 = ?ts"
    using ticket_queries_hydrate [of ev ?ts "[]" candidates] h by simp
  have hs: "hydrate_stage ev db_path ?ts = (Connect db_path # l2, Inr candidates)"
    using assms(3,4) h by (simp add: hydrate_stage_def)
  have log: "ticket_queries (fst (compare ev question0 chroma_path db_path top_k model)) = ?ts"
  proof (cases "?ts = []")
    case True
    then show ?thesis using assms(1) e l1
      by (simp add: compare_def Let_def then_stage_def)
  next
    case False
    show ?thesis
    proof (cases "candidates = []")
      case True
      then show ?thesis using assms(1) e l1 hs l2 False
        by (simp add: compare_def Let_def then_stage_def ticket_queries_append)
    next
      case c: False
      obtain l3 r3 where r: "rank_stage ev model ?q candidates = (l3, r3)"
        by (cases "rank_stage ev model ?q candidates")
      have l3: "ticket_queries l3 = []"
        using ticket_queries_rank_stage [of ev model ?q candidates] r by simp
      show ?thesis using assms(1) e l1 hs l2 False c r l3
        by (cases r3) (simp_all add: compare_def Let_def then_stage_def ticket_queries_append)
    qed
  qed
  show ?thesis using log dist st spec by blast
qed

theorem compare_hydrates_each_ticket_once_witness:
  "path_exists demo_env ''data/chroma'' \<and>
   snd (embedding_query demo_env ''data/chroma'' (hooked_question demo_env ''wrong invoice'') 5) = Inr demo_results \<and>
   path_exists demo_env ''data/supportmind.db'' \<and>
   db_connect demo_env ''data/supportmind.db'' = Inr () \<and>
   ticket_queries (fst (compare demo_env ''wrong invoice'' ''data/chroma'' ''data/supportmind.db'' 5 ''gpt-4o-mini''))
     = [MStr ''T1'', MStr ''T2''] \<and>
   retrieved_ticket_numbers demo_results = [MStr ''T1'', MStr ''T2'']"
proof -
  have a: "path_exists demo_env ''data/chroma''" "path_exists demo_env ''data/supportmind.db''"
    "db_connect demo_env ''data/supportmind.db'' = Inr ()"
    by (simp_all add: demo_env_def)
  have b: "snd (embedding_query demo_env ''data/chroma'' (hooked_question demo_env ''wrong invoice'') 5) = Inr demo_results"
    by (simp add: embedding_query_def demo_env_def demo_collection_def)
  have t: "retrieved_ticket_numbers demo_results = [MStr ''T1'', MStr ''T2'']"
    by (simp add: retrieved_ticket_numbers_def demo_results_def first_nonempty_def ticket_meta_def truthy_def)
  obtain cs where c: "snd (hydrate demo_env (retrieved_ticket_numbers demo_results) []) = Inr cs"
    by (simp add: t demo_env_def ticket_T1_def ticket_T2_def or_empty_def)
  show ?thesis
    using a b t compare_hydrates_each_ticket_once [OF a(1) b a(2) a(3) c, of "''gpt-4o-mini''"]
    by simp
qed

subsection \<open>Assembly of the ranked results\<close>

lemma build_ranked_spec:
  "list_all well_typed_entry entries \<Longrightarrow>
   build_ranked cands entries acc = Inr (acc @ map (ranked_of cands) (filter (in_range cands) entries))"
proof (induction entries arbitrary: acc)
  case Nil
  then show ?case by simp
next
  case (Cons e es)
  then obtain d where d: "e = JObj d" by (cases e) (auto simp: well_typed_entry_def)
  with Cons.prems obtain i where i: "py_int (dict_get d ''index'' (JInt (- 1))) = Some i"
    by (auto simp: well_typed_entry_def)
  have es: "list_all well_typed_entry es" using Cons.prems by simp
  show ?case
    using d i Cons.IH[OF es]
    by (simp add: in_range_def entry_index_def entry_fields_def ranked_of_def)
qed

lemma sort_by_rank_numbers:
  assumes "list_all (\<lambda>r. py_int (r_rank r) \<noteq> None) rs"
  shows "sort_by_rank rs = Inr (sort_key rank_number rs)"
proof (cases "length rs \<le> 1")
  case True
  then have "sort_key rank_number rs = rs" by (cases rs) auto
  then show ?thesis using True by (simp add: sort_by_rank_def)
next
  case False
  then show ?thesis using assms by (simp add: sort_by_rank_def)
qed

lemma ranked_of_rank_number:
  "list_all well_typed_entry entries \<Longrightarrow>
   list_all (\<lambda>r. py_int (r_rank r) \<noteq> None) (map (ranked_of cands) (filter (in_range cands) entries))"
  by (induction entries)
     (auto simp: well_typed_entry_def ranked_of_def mk_ranked_def entry_fields_def split: json.splits)

text \<open>
  Claim C6. For a decoded response whose \<open>rankings\<close> is a non-empty array of well-typed
  entries, the result of step 4 holds exactly the entries whose index names a candidate
  (as a multiset: the entries kept, each joined to the candidate at its index), sorted
  ascending by rank whatever the order of the response, and each result carries the
  entry's rank and rationale and the candidate's own ticket number, KB article id,
  script id, script text, module, category, status and tier.
\<close>

theorem assembly_keeps_in_range_sorted_by_rank:
  assumes "json_loads ev (strip_fence response_text) = Inr (JObj d)"
    and "dict_get d ''rankings'' (JArr []) = JArr entries"
    and "entries \<noteq> []"
    and "list_all well_typed_entry entries"
    and "outgoing_hook ev = None"
  shows "\<exists>rs. parse_and_assemble ev question0 question cands response_text =
                Inr [(''ranked_results'', RList rs), (''question'', RStr question),
                     (''no_match'', RBool False)] \<and>
              rs = sort_key rank_number (map (ranked_of cands) (filter (in_range cands) entries)) \<and>
              mset rs = mset (map (ranked_of cands) (filter (in_range cands) entries)) \<and>
              sorted (map rank_number rs) \<and>
              (\<forall>e \<in> set entries. in_range cands e \<longrightarrow>
                 ranked_of cands e \<in> set rs \<and>
                 r_rank (ranked_of cands e) = dict_get (entry_fields e) ''rank'' (JInt 0) \<and>
                 r_rationale (ranked_of cands e) = dict_get (entry_fields e) ''rationale'' (JStr []) \<and>
                 r_ticket_number (ranked_of cands e) = cand_ticket_number (cands ! nat (entry_index e)) \<and>
                 r_kb_article_id (ranked_of cands e) = cand_kb_article_id (cands ! nat (entry_index e)) \<and>
                 r_script_id (ranked_of cands e) = cand_script_id (cands ! nat (entry_index e)) \<and>
                 r_script_text (ranked_of cands e) = cand_script_text (cands ! nat (entry_index e)) \<and>
                 r_module (ranked_of cands e) = cand_module (cands ! nat (entry_index e)) \<and>
                 r_category (ranked_of cands e) = cand_category (cands ! nat (entry_index e)) \<and>
                 r_status (ranked_of cands e) = cand_status (cands ! nat (entry_index e)) \<and>
                 r_tier (ranked_of cands e) = cand_tier (cands ! nat (entry_index e)))"
proof -
  let ?kept = "map (ranked_of cands) (filter (in_range cands) entries)"
  let ?rs = "sort_key rank_number ?kept"
  have dec: "decode_rankings ev response_text = Inr (JArr entries)"
    using assms(1,2) by (simp add: decode_rankings_def)
  have nf: "\<not> json_falsy (JArr entries)" using assms(3) by (simp add: json_falsy_def)
  have asm: "assemble cands (JArr entries) = Inr ?kept"
    using build_ranked_spec[OF assms(4), of cands "[]"] by (simp add: assemble_def)
  have srt: "sort_by_rank ?kept = Inr ?rs"
    by (rule sort_by_rank_numbers) (rule ranked_of_rank_number[OF assms(4)])
  have res: "parse_and_assemble ev question0 question cands response_text =
                Inr [(''ranked_results'', RList ?rs), (''question'', RStr question),
                     (''no_match'', RBool False)]"
    using dec nf asm srt assms(5) by (simp add: parse_and_assemble_def)
  have ms: "mset ?rs = mset ?kept" by simp
  have so: "sorted (map rank_number ?rs)" by simp
  have fl: "\<forall>e \<in> set entries. in_range cands e \<longrightarrow>
                 ranked_of cands e \<in> set ?rs \<and>
                 r_rank (ranked_of cands e) = dict_get (entry_fields e) ''rank'' (JInt 0) \<and>
                 r_rationale (ranked_of cands e) = dict_get (entry_fields e) ''rationale'' (JStr []) \<and>
                 r_ticket_number (ranked_of cands e) = cand_ticket_number (cands ! nat (entry_index e)) \<and>
                 r_kb_article_id (ranked_of cands e) = cand_kb_article_id (cands ! nat (entry_index e)) \<and>
                 r_script_id (ranked_of cands e) = cand_script_id (cands ! nat (entry_index e)) \<and>
                 r_script_text (ranked_of cands e) = cand_script_text (cands ! nat (entry_index e)) \<and>
                 r_module (ranked_of cands e) = cand_module (cands ! nat (entry_index e)) \<and>
                 r_category (ranked_of cands e) = cand_category (cands ! nat (entry_index e)) \<and>
                 r_status (ranked_of cands e) = cand_status (cands ! nat (entry_index e)) \<and>
                 r_tier (ranked_of cands e) = cand_tier (cands ! nat (entry_index e))"
    by (simp add: ranked_of_def mk_ranked_def)
  show ?thesis using res ms so fl by blast
qed

theorem assembly_keeps_in_range_sorted_by_rank_witness:
  "json_loads shuffled_env (strip_fence ''{rankings}'') = Inr (JObj [(''rankings'', JArr shuffled_entries)]) \<and>
   dict_get [(''rankings'', JArr shuffled_entries)] ''rankings'' (JArr []) = JArr shuffled_entries \<and>
   shuffled_entries \<noteq> [] \<and> list_all well_typed_entry shuffled_entries \<and>
   outgoing_hook shuffled_env = None \<and>
   parse_and_assemble shuffled_env ''wrong invoice'' ''wrong invoice'' demo_candidates ''{rankings}'' =
     Inr [(''ranked_results'',
           RList [\<lparr>r_rank = JInt 1, r_ticket_number = Some ''T2'', r_kb_article_id = [],
                   r_script_id = [], r_script_text = [], r_rationale = JStr ''best fit'',
                   r_module = Some ''Login'', r_category = Some ''Password'',
                   r_status = Some ''Open'', r_tier = Some ''1''\<rparr>,
                  \<lparr>r_rank = JInt 2, r_ticket_number = Some ''T1'', r_kb_article_id = ''KB-1'',
                   r_script_id = ''S1'', r_script_text = ''restart billing'',
                   r_rationale = JStr ''partial fit'',
                   r_module = Some ''Billing'', r_category = Some ''Invoice'',
                   r_status = Some ''Closed'', r_tier = Some ''2''\<rparr>]),
          (''question'', RStr ''wrong invoice''), (''no_match'', RBool False)]"
proof -
  have a: "json_loads shuffled_env (strip_fence ''{rankings}'') = Inr (JObj [(''rankings'', JArr shuffled_entries)])"
    by (simp add: shuffled_env_def shuffled_decision_def)
  have b: "dict_get [(''rankings'', JArr shuffled_entries)] ''rankings'' (JArr []) = JArr shuffled_entries"
    by (simp add: dict_get_def)
  have c: "shuffled_entries \<noteq> []" by (simp add: shuffled_entries_def)
  have d: "list_all well_typed_entry shuffled_entries"
    by (simp add: shuffled_entries_def well_typed_entry_def dict_get_def py_int_def)
  have e: "outgoing_hook shuffled_env = None" by (simp add: shuffled_env_def demo_env_def)
  have kept: "sort_key rank_number (map (ranked_of demo_candidates) (filter (in_range demo_candidates) shuffled_entries)) =
     [\<lparr>r_rank = JInt 1, r_ticket_number = Some ''T2'', r_kb_article_id = [],
                   r_script_id = [], r_script_text = [], r_rationale = JStr ''best fit'',
                   r_module = Some ''Login'', r_category = Some ''Password'',
                   r_status = Some ''Open'', r_tier = Some ''1''\<rparr>,
                  \<lparr>r_rank = JInt 2, r_ticket_number = Some ''T1'', r_kb_article_id = ''KB-1'',
                   r_script_id = ''S1'', r_script_text = ''restart billing'',
                   r_rationale = JStr ''partial fit'',
                   r_module = Some ''Billing'', r_category = Some ''Invoice'',
                   r_status = Some ''Closed'', r_tier = Some ''2''\<rparr>]"
    by (simp add: shuffled_entries_def in_range_def entry_index_def entry_fields_def dict_get_def
        py_int_def demo_candidates_def ranked_of_def mk_ranked_def mk_candidate_def ticket_T1_def
        ticket_T2_def or_empty_def rank_number_def)
  from assembly_keeps_in_range_sorted_by_rank [OF a b c d e, of "''wrong invoice''" "''wrong invoice''" demo_candidates]
  have "parse_and_assemble shuffled_env ''wrong invoice'' ''wrong invoice'' demo_candidates ''{rankings}'' =
     Inr [(''ranked_results'',
           RList (sort_key rank_number (map (ranked_of demo_candidates) (filter (in_range demo_candidates) shuffled_entries)))),
          (''question'', RStr ''wrong invoice''), (''no_match'', RBool False)]"
    by blast
  then show ?thesis using a b c d e kept by simp
qed

subsection \<open>A response in a markdown fence\<close>

lemma split_on_nonempty: "split_on c s \<noteq> []"
  by (induction s) (auto split: list.splits)

lemma split_on_append: "split_on c (a @ c # b) = split_on c a @ split_on c b"
proof (induction a)
  case Nil
  then show ?case by simp
next
  case (Cons x a)
  then show ?case using split_on_nonempty[of c a]
    by (cases "split_on c a") auto
qed

lemma split_on_none: "c \<notin> set a \<Longrightarrow> split_on c a = [a]"
  by (induction a) auto

lemma join_split_on: "join [c] (split_on c s) = s"
proof (induction s)
  case Nil
  then show ?case by simp
next
  case (Cons x xs)
  obtain l ls where sp: "split_on c xs = l # ls"
    using split_on_nonempty[of c xs] by (cases "split_on c xs") auto
  show ?case using Cons sp by (cases ls) auto
qed

lemma strip_core:
  assumes "list_all py_isspace pre" "list_all py_isspace post"
    and "x \<noteq> []" "\<not> py_isspace (hd x)" "\<not> py_isspace (last x)"
  shows "strip (pre @ x @ post) = x"
proof -
  have 1: "dropWhile py_isspace (pre @ x @ post) = x @ post"
    using assms(1,3,4) by (cases x) (auto simp: dropWhile_append2 list_all_iff)
  have "dropWhile py_isspace (rev post @ rev x) = dropWhile py_isspace (rev x)"
    using assms(2) by (intro dropWhile_append2) (simp add: list_all_iff)
  moreover have "dropWhile py_isspace (rev x) = rev x"
    using assms(3,5) by (cases x rule: rev_cases) auto
  ultimately have 2: "dropWhile py_isspace (rev post @ rev x) = rev x" by simp
  show ?thesis by (simp add: strip_def 1 2)
qed

lemma backtick_not_space: "\<not> py_isspace (CHR ''`'')"
  by (simp add: py_isspace_def)

lemma strip_fenced:
  assumes "list_all py_isspace pre" "list_all py_isspace post"
  shows "strip (fenced pre lang body post) = ''```'' @ lang @ [CHR 10] @ body @ [CHR 10] @ ''```''"
proof -
  let ?x = "''```'' @ lang @ [CHR 10] @ body @ [CHR 10] @ ''```''"
  have "fenced pre lang body post = pre @ ?x @ post" by (simp add: fenced_def)
  moreover have "strip (pre @ ?x @ post) = ?x"
    using assms by (intro strip_core) (simp_all add: backtick_not_space)
  ultimately show ?thesis by simp
qed

lemma strip_fence_fenced:
  assumes "CHR 10 \<notin> set lang"
  shows "strip_fence (''```'' @ lang @ [CHR 10] @ body @ [CHR 10] @ ''```'') = body"
proof -
  let ?op = "''```'' @ lang"
  have op: "CHR 10 \<notin> set ?op" using assms by simp
  have sw: "startswith (''```'' @ lang @ [CHR 10] @ body @ [CHR 10] @ ''```'') ''```''"
    "startswith ?op ''```''"
    by (simp_all add: startswith_def)
  have "split_on (CHR 10) (?op @ CHR 10 # (body @ CHR 10 # ''```'')) =
          split_on (CHR 10) ?op @ split_on (CHR 10) (body @ CHR 10 # ''```'')"
    by (rule split_on_append)
  also have "\<dots> = ?op # (split_on (CHR 10) body @ [''```''])"
    using split_on_none[OF op] by (simp add: split_on_append)
  finally have lines: "split_on (CHR 10) (''```'' @ lang @ [CHR 10] @ body @ [CHR 10] @ ''```'') =
       ?op # (split_on (CHR 10) body @ [''```''])" by simp
  have st: "strip ''```'' = ''```''" by (simp add: strip_def py_isspace_def)
  show ?thesis
    unfolding strip_fence_def
    using sw lines st by (simp add: Let_def join_split_on del: split_on.simps)
qed


lemma fields_answering:
  "incoming_hook (answering ev c) = incoming_hook ev"
  "outgoing_hook (answering ev c) = outgoing_hook ev"
  "path_exists (answering ev c) = path_exists ev"
  "get_collection (answering ev c) = get_collection ev"
  "db_connect (answering ev c) = db_connect ev"
  "db_ticket (answering ev c) = db_ticket ev"
  "db_script (answering ev c) = db_script ev"
  "getenv_OPENAI_API_KEY (answering ev c) = getenv_OPENAI_API_KEY ev"
  "openai_client (answering ev c) = openai_client ev"
  "json_loads (answering ev c) = json_loads ev"
  by (simp_all add: answering_def)

lemma hydrate_answering: "hydrate (answering ev c) ts cs = hydrate ev ts cs"
  by (induction ts arbitrary: cs)
     (simp_all add: fields_answering Let_def split: sum.splits option.splits)

lemma stages_answering:
  "hooked_question (answering ev c) q0 = hooked_question ev q0"
  "path_exists (answering ev c) = path_exists ev"
  "embedding_query (answering ev c) p q k = embedding_query ev p q k"
  "hydrate_stage (answering ev c) dp ts = hydrate_stage ev dp ts"
  "parse_and_assemble (answering ev c) q0 q cs t = parse_and_assemble ev q0 q cs t"
  by (simp_all add: hooked_question_def embedding_query_def hydrate_stage_def
      parse_and_assemble_def decode_rankings_def fields_answering hydrate_answering
      cong: sum.case_cong option.case_cong if_cong)

lemma rank_then_parse_answering:
  "then_stage (rank_stage (answering ev c) model q cs) (\<lambda>t. ([], parse_and_assemble ev q0 q cs t)) =
     (case getenv_OPENAI_API_KEY ev of
        None \<Rightarrow> ([], Inl (AgentError ''OPENAI_API_KEY not set in .env''))
      | Some api_key \<Rightarrow>
          if strip api_key = [] then ([], Inl (AgentError ''OPENAI_API_KEY not set in .env''))
          else (case openai_client ev (strip api_key) of
                  Inl m \<Rightarrow> ([ClientInit], Inl (AgentError (''OpenAI client init failed: '' @ m)))
                | Inr _ \<Rightarrow> ([ClientInit, RankingCall model], parse_and_assemble ev q0 q cs (strip c))))"
proof -
  have chat: "chat_completions (answering ev c) = (\<lambda>m q cs. Inr [Some c])"
    by (simp add: answering_def)
  show ?thesis
    by (simp add: rank_stage_def then_stage_def fields_answering chat or_empty_def
        split: option.splits sum.splits)
qed

lemma compare_answering:
  assumes "\<And>cs. parse_and_assemble ev q0 (hooked_question ev q0) cs (strip c) =
               parse_and_assemble ev q0 (hooked_question ev q0) cs (strip c')"
  shows "compare (answering ev c) q0 cp dp k model = compare (answering ev c') q0 cp dp k model"
  unfolding compare_def Let_def stages_answering rank_then_parse_answering assms
  by (rule refl)

text \<open>
  Claim C8. A response that wraps a body in a markdown fence decodes to the same rankings
  as the body alone, and \<open>compare\<close> returns the same result and makes the same calls for
  both, for every decoder that reads the body the same with and without surrounding
  whitespace (as a JSON decoder does on a JSON text) and every body that does not itself
  start with three backticks.
\<close>

theorem fenced_response_same_as_unwrapped:
  assumes "list_all py_isspace pre" and "list_all py_isspace post" and "CHR 10 \<notin> set lang"
    and "\<not> startswith (strip body) ''```''"
    and "json_loads ev (strip body) = json_loads ev body"
  shows "decode_rankings ev (strip (fenced pre lang body post)) = decode_rankings ev (strip body) \<and>
         compare (answering ev (fenced pre lang body post)) question chroma_path db_path top_k model =
           compare (answering ev body) question chroma_path db_path top_k model"
proof -
  have w: "strip_fence (strip (fenced pre lang body post)) = body"
    using strip_fenced [OF assms(1,2)] strip_fence_fenced [OF assms(3)] by simp
  have b: "strip_fence (strip body) = strip body"
    using assms(4) by (simp add: strip_fence_def)
  have dec: "decode_rankings ev (strip (fenced pre lang body post)) = decode_rankings ev (strip body)"
    using w b assms(5) by (simp add: decode_rankings_def)
  then have "\<And>q0 q cs. parse_and_assemble ev q0 q cs (strip (fenced pre lang body post)) =
                 parse_and_assemble ev q0 q cs (strip body)"
    by (simp add: parse_and_assemble_def)
  then have "compare (answering ev (fenced pre lang body post)) question chroma_path db_path top_k model =
           compare (answering ev body) question chroma_path db_path top_k model"
    by (intro compare_answering) simp
  with dec show ?thesis by simp
qed

theorem fenced_response_same_as_unwrapped_witness:
  "list_all py_isspace [] \<and> list_all py_isspace [CHR 10] \<and> CHR 10 \<notin> set ''json'' \<and>
   \<not> startswith (strip ''{rankings}'') ''```'' \<and>
   json_loads demo_env (strip ''{rankings}'') = json_loads demo_env ''{rankings}'' \<and>
   decode_rankings demo_env (strip (fenced [] ''json'' ''{rankings}'' [CHR 10])) =
     decode_rankings demo_env (strip ''{rankings}'') \<and>
   decode_rankings demo_env (strip ''{rankings}'') =
     Inr (JArr [JObj [(''index'', JInt 1), (''rank'', JInt 1), (''rationale'', JStr ''best fit'')],
                JObj [(''index'', JInt 0), (''rank'', JInt 2), (''rationale'', JStr ''partial fit'')]]) \<and>
   compare (answering demo_env (fenced [] ''json'' ''{rankings}'' [CHR 10]))
       ''wrong invoice'' ''data/chroma'' ''data/supportmind.db'' 5 ''gpt-4o-mini'' =
     compare (answering demo_env ''{rankings}'')
       ''wrong invoice'' ''data/chroma'' ''data/supportmind.db'' 5 ''gpt-4o-mini''"
proof -
  have s: "strip ''{rankings}'' = ''{rankings}''" by (simp add: strip_def py_isspace_def)
  have a: "list_all py_isspace []" "list_all py_isspace [CHR 10]" "CHR 10 \<notin> set ''json''"
    by (simp_all add: py_isspace_def)
  have b: "\<not> startswith (strip ''{rankings}'') ''```''" by (simp add: s startswith_def)
  have c: "json_loads demo_env (strip ''{rankings}'') = json_loads demo_env ''{rankings}''"
    by (simp add: s)
  have d: "decode_rankings demo_env (strip ''{rankings}'') =
     Inr (JArr [JObj [(''index'', JInt 1), (''rank'', JInt 1), (''rationale'', JStr ''best fit'')],
                JObj [(''index'', JInt 0), (''rank'', JInt 2), (''rationale'', JStr ''partial fit'')]])"
    by (simp add: s decode_rankings_def strip_fence_def startswith_def demo_env_def demo_decision_def dict_get_def)
  show ?thesis
    using a b c d
      fenced_response_same_as_unwrapped [OF a b c,
        of "''wrong invoice''" "''data/chroma''" "''data/supportmind.db''" 5 "''gpt-4o-mini''"]
    by simp
qed

subsection \<open>The errors of \<open>compare\<close>\<close>

lemma compare_after_retrieval:
  assumes "path_exists ev cp"
    and "snd (embedding_query ev cp (hooked_question ev q0) k) = Inr results"
    and "retrieved_ticket_numbers results \<noteq> []"
  shows "snd (compare ev q0 cp dp k model) =
     snd (then_stage (hydrate_stage ev dp (retrieved_ticket_numbers results)) (\<lambda>candidates.
            if candidates = [] then ([], Inr (no_match_result (hooked_question ev q0)))
            else then_stage (rank_stage ev model (hooked_question ev q0) candidates) (\<lambda>response_text.
                   ([], parse_and_assemble ev q0 (hooked_question ev q0) candidates response_text))))"
proof -
  obtain l where "embedding_query ev cp (hooked_question ev q0) k = (l, Inr results)"
    using assms(2) by (cases "embedding_query ev cp (hooked_question ev q0) k") auto
  then show ?thesis using assms(1,3)
    by (simp add: compare_def Let_def then_stage_def split: prod.splits)
qed

lemma compare_after_hydration:
  assumes "path_exists ev cp"
    and "snd (embedding_query ev cp (hooked_question ev q0) k) = Inr results"
    and "retrieved_ticket_numbers results \<noteq> []"
    and "snd (hydrate_stage ev dp (retrieved_ticket_numbers results)) = Inr candidates"
    and "candidates \<noteq> []"
  shows "snd (compare ev q0 cp dp k model) =
     snd (then_stage (rank_stage ev model (hooked_question ev q0) candidates) (\<lambda>response_text.
            ([], parse_and_assemble ev q0 (hooked_question ev q0) candidates response_text)))"
proof -
  obtain l where "hydrate_stage ev dp (retrieved_ticket_numbers results) = (l, Inr candidates)"
    using assms(4) by (cases "hydrate_stage ev dp (retrieved_ticket_numbers results)") auto
  then show ?thesis using assms(5) compare_after_retrieval [OF assms(1-3), of dp model]
    by (simp add: then_stage_def split: prod.splits)
qed

lemma snd_hydrate_stage_failure:
  "path_exists ev dp \<Longrightarrow> db_connect ev dp = Inr u \<Longrightarrow> snd (hydrate ev ts []) = Inl m \<Longrightarrow>
   snd (hydrate_stage ev dp ts) = Inl (AgentError (''Database query failed: '' @ m))"
  by (cases "hydrate ev ts []") (simp add: hydrate_stage_def)

lemma snd_then_stage_error: "snd m = Inl e \<Longrightarrow> snd (then_stage m f) = Inl e"
  by (cases m) (simp add: then_stage_def)

text \<open>
  Claim C9. Each failure of a collaborator surfaces from \<open>compare\<close> as an \<open>AgentError\<close>
  with a message that names the stage: the vector index path missing; the collection not
  opening or the similarity query failing; the database path missing, the connection
  failing, a ticket or script query failing; the credential missing or blank; the client
  of the ranking service not constructing; the ranking call failing; the response not
  decoding. The three no-match outcomes (no ticket retrieved, no candidate hydrated, an
  empty ranking list) are results with the flag \<open>no_match\<close> set, not errors.
\<close>

theorem compare_failures_are_agent_errors:
  "(\<not> path_exists ev cp \<longrightarrow>
      snd (compare ev qo cp dp k model) = Inl (AgentError (''Chroma index not found: '' @ cp))) \<and>
   (path_exists ev cp \<and> get_collection ev cp ''supportmind'' = Inl m \<longrightarrow>
      snd (compare ev qo cp dp k model) = Inl (AgentError (''Embedding query failed: '' @ m))) \<and>
   (path_exists ev cp \<and> get_collection ev cp ''supportmind'' = Inr col \<and>
    col_query col (hooked_question ev qo) (min k (col_count col))
      (Some [(''source_type'', MStr ''ticket'')]) = Inl m \<longrightarrow>
      snd (compare ev qo cp dp k model) = Inl (AgentError (''Embedding query failed: '' @ m))) \<and>
   (path_exists ev cp \<and> snd (embedding_query ev cp (hooked_question ev qo) k) = Inr results \<and>
    retrieved_ticket_numbers results \<noteq> [] \<longrightarrow>
      (\<not> path_exists ev dp \<longrightarrow>
         snd (compare ev qo cp dp k model) = Inl (AgentError (''DB not found: '' @ dp))) \<and>
      (path_exists ev dp \<and> db_connect ev dp = Inl m \<longrightarrow>
         snd (compare ev qo cp dp k model) = Inl (AgentError (''Database query failed: '' @ m))) \<and>
      (path_exists ev dp \<and> db_connect ev dp = Inr u \<and>
       snd (hydrate ev (retrieved_ticket_numbers results) []) = Inl m \<longrightarrow>
         snd (compare ev qo cp dp k model) = Inl (AgentError (''Database query failed: '' @ m))) \<and>
      (snd (hydrate_stage ev dp (retrieved_ticket_numbers results)) = Inr [] \<longrightarrow>
         snd (compare ev qo cp dp k model) = Inr (no_match_result (hooked_question ev qo))) \<and>
      (snd (hydrate_stage ev dp (retrieved_ticket_numbers results)) = Inr candidates \<and>
       candidates \<noteq> [] \<longrightarrow>
         (getenv_OPENAI_API_KEY ev = None \<or>
          (getenv_OPENAI_API_KEY ev = Some api_key \<and> strip api_key = []) \<longrightarrow>
            snd (compare ev qo cp dp k model) = Inl (AgentError ''OPENAI_API_KEY not set in .env'')) \<and>
         (getenv_OPENAI_API_KEY ev = Some api_key \<and> strip api_key \<noteq> [] \<longrightarrow>
            (openai_client ev (strip api_key) = Inl m \<longrightarrow>
               snd (compare ev qo cp dp k model) =
                 Inl (AgentError (''OpenAI client init failed: '' @ m))) \<and>
            (openai_client ev (strip api_key) = Inr u' \<longrightarrow>
               (chat_completions ev model (hooked_question ev qo) (candidates_for_llm candidates) = Inl m \<longrightarrow>
                  snd (compare ev qo cp dp k model) =
                    Inl (AgentError (''OpenAI API call failed: '' @ m))) \<and>
               (chat_completions ev model (hooked_question ev qo) (candidates_for_llm candidates) =
                  Inr (content # choices) \<longrightarrow>
                  (json_loads ev (strip_fence (strip (or_empty content))) = Inl m \<longrightarrow>
                     snd (compare ev qo cp dp k model) =
                       Inl (AgentError (''OpenAI returned invalid JSON: '' @ m))) \<and>
                  (decode_rankings ev (strip (or_empty content)) = Inr rankings \<and>
                   json_falsy rankings \<longrightarrow>
                     snd (compare ev qo cp dp k model) =
                       Inr (no_match_result (hooked_question ev qo)))))))) \<and>
   (path_exists ev cp \<and> snd (embedding_query ev cp (hooked_question ev qo) k) = Inr results \<and>
    retrieved_ticket_numbers results = [] \<longrightarrow>
      (\<exists>r. snd (compare ev qo cp dp k model) = Inr r \<and> map_of r ''no_match'' = Some (RBool True)))"
  (is "?A \<and> ?B \<and> ?C \<and> (?R \<longrightarrow> ?D1 \<and> ?D2 \<and> ?D3 \<and> ?D4 \<and> (?H \<longrightarrow> ?D5)) \<and> ?E")
proof -
  let ?q = "hooked_question ev qo"
  let ?ts = "retrieved_ticket_numbers results"
  have A: ?A by (simp add: compare_def Let_def)
  have B: ?B by (simp add: compare_def Let_def then_stage_def embedding_query_def)
  have C: ?C by (simp add: compare_def Let_def then_stage_def embedding_query_def)
  have E: ?E
  proof (intro impI, elim conjE)
    assume a: "path_exists ev cp" "snd (embedding_query ev cp ?q k) = Inr results" "?ts = []"
    obtain l where "embedding_query ev cp ?q k = (l, Inr results)"
      using a(2) by (cases "embedding_query ev cp ?q k") auto
    then show "\<exists>r. snd (compare ev qo cp dp k model) = Inr r \<and> map_of r ''no_match'' = Some (RBool True)"
      using a(1,3) by (simp add: compare_def Let_def then_stage_def)
  qed
  have D: "?R \<longrightarrow> ?D1 \<and> ?D2 \<and> ?D3 \<and> ?D4 \<and> (?H \<longrightarrow> ?D5)"
  proof (intro impI, elim conjE)
    assume a: "path_exists ev cp" "snd (embedding_query ev cp ?q k) = Inr results" "?ts \<noteq> []"
    note r = compare_after_retrieval [OF a, of dp model]
    have D1: ?D1 by (simp add: r hydrate_stage_def then_stage_def)
    have D2: ?D2 by (simp add: r hydrate_stage_def then_stage_def)
    have D3: ?D3
      using snd_hydrate_stage_failure [of ev dp u ?ts m]
      by (auto simp: r intro: snd_then_stage_error)
    have D4: ?D4 by (cases "hydrate_stage ev dp ?ts") (simp add: r then_stage_def)
    have D5: "?H \<longrightarrow> ?D5"
    proof (intro impI, elim conjE)
      assume h: "snd (hydrate_stage ev dp ?ts) = Inr candidates" "candidates \<noteq> []"
      note c = compare_after_hydration [OF a h, of model]
      show ?D5
        by (auto simp: c rank_stage_def then_stage_def parse_and_assemble_def decode_rankings_def)
    qed
    show "?D1 \<and> ?D2 \<and> ?D3 \<and> ?D4 \<and> (?H \<longrightarrow> ?D5)"
      using D1 D2 D3 D4 D5 by blast
  qed
  show ?thesis using A B C D E by blast
qed

lemmas demo_defs = demo_env_def demo_collection_def demo_results_def demo_decision_def
  ticket_T1_def ticket_T2_def ticket_meta_def

theorem compare_failures_are_agent_errors_witness:
  "snd (compare (demo_env\<lparr>path_exists := (\<lambda>p. False)\<rparr>)
         ''wrong invoice'' ''data/chroma'' ''data/db'' 5 ''gpt-4o-mini'') =
     Inl (AgentError ''Chroma index not found: data/chroma'') \<and>
   snd (compare (demo_env\<lparr>get_collection := (\<lambda>p n. Inl ''no collection'')\<rparr>)
         ''wrong invoice'' ''data/chroma'' ''data/db'' 5 ''gpt-4o-mini'') =
     Inl (AgentError ''Embedding query failed: no collection'') \<and>
   snd (compare (demo_env\<lparr>path_exists := (\<lambda>p. p = ''data/chroma'')\<rparr>)
         ''wrong invoice'' ''data/chroma'' ''data/db'' 5 ''gpt-4o-mini'') =
     Inl (AgentError ''DB not found: data/db'') \<and>
   snd (compare (demo_env\<lparr>db_connect := (\<lambda>p. Inl ''locked'')\<rparr>)
         ''wrong invoice'' ''data/chroma'' ''data/db'' 5 ''gpt-4o-mini'') =
     Inl (AgentError ''Database query failed: locked'') \<and>
   snd (compare (demo_env\<lparr>getenv_OPENAI_API_KEY := None\<rparr>)
         ''wrong invoice'' ''data/chroma'' ''data/db'' 5 ''gpt-4o-mini'') =
     Inl (AgentError ''OPENAI_API_KEY not set in .env'') \<and>
   snd (compare (demo_env\<lparr>chat_completions := (\<lambda>m q cs. Inl ''timeout'')\<rparr>)
         ''wrong invoice'' ''data/chroma'' ''data/db'' 5 ''gpt-4o-mini'') =
     Inl (AgentError ''OpenAI API call failed: timeout'') \<and>
   snd (compare (demo_env\<lparr>json_loads := (\<lambda>t. Inl ''Expecting value'')\<rparr>)
         ''wrong invoice'' ''data/chroma'' ''data/db'' 5 ''gpt-4o-mini'') =
     Inl (AgentError ''OpenAI returned invalid JSON: Expecting value'') \<and>
   snd (compare (demo_env\<lparr>get_collection :=
                    (\<lambda>p n. Inr \<lparr>col_count = 3, col_query = (\<lambda>q n w. Inl ''no model'')\<rparr>)\<rparr>)
         ''wrong invoice'' ''data/chroma'' ''data/db'' 5 ''gpt-4o-mini'') =
     Inl (AgentError ''Embedding query failed: no model'') \<and>
   snd (compare (demo_env\<lparr>db_ticket := (\<lambda>t. Inl ''no such table'')\<rparr>)
         ''wrong invoice'' ''data/chroma'' ''data/db'' 5 ''gpt-4o-mini'') =
     Inl (AgentError ''Database query failed: no such table'') \<and>
   snd (compare (demo_env\<lparr>openai_client := (\<lambda>k. Inl ''bad key'')\<rparr>)
         ''wrong invoice'' ''data/chroma'' ''data/db'' 5 ''gpt-4o-mini'') =
     Inl (AgentError ''OpenAI client init failed: bad key'') \<and>
   snd (compare (demo_env\<lparr>json_loads := (\<lambda>t. Inr (JObj []))\<rparr>)
         ''wrong invoice'' ''data/chroma'' ''data/db'' 5 ''gpt-4o-mini'') =
     Inr (no_match_result ''wrong invoice'') \<and>
   snd (compare (demo_env\<lparr>db_ticket := (\<lambda>t. Inr None)\<rparr>)
         ''wrong invoice'' ''data/chroma'' ''data/db'' 5 ''gpt-4o-mini'') =
     Inr (no_match_result ''wrong invoice'')"
proof -
  let ?cmp = "\<lambda>ev. snd (compare ev ''wrong invoice'' ''data/chroma'' ''data/db'' 5 ''gpt-4o-mini'')"
  note inst = compare_failures_are_agent_errors
    [where qo = "''wrong invoice''" and cp = "''data/chroma''" and dp = "''data/db''" and k = 5
       and model = "''gpt-4o-mini''" and results = demo_results and candidates = demo_candidates
       and api_key = "''sk-test''" and u = "()" and u' = "()" and content = "Some ''{rankings}''"
       and choices = "[]"]
  have tn: "retrieved_ticket_numbers demo_results = [MStr ''T1'', MStr ''T2'']"
    by (simp add: retrieved_ticket_numbers_def demo_results_def first_nonempty_def ticket_meta_def truthy_def)
  have sk: "strip ''sk-test'' = ''sk-test''" "strip ''{rankings}'' = ''{rankings}''"
    by (simp_all add: strip_def py_isspace_def)
  have hy: "\<And>ev. db_ticket ev = db_ticket demo_env \<Longrightarrow> db_script ev = db_script demo_env \<Longrightarrow>
      hydrate ev [MStr ''T1'', MStr ''T2''] [] =
        ([TicketQuery (MStr ''T1''), ScriptQuery ''S1'', TicketQuery (MStr ''T2'')], Inr demo_candidates)"
    by (simp add: demo_defs or_empty_def demo_candidates_def)
  have 1: "?cmp (demo_env\<lparr>path_exists := (\<lambda>p. False)\<rparr>) =
     Inl (AgentError ''Chroma index not found: data/chroma'')"
    using inst [where ev = "demo_env\<lparr>path_exists := (\<lambda>p. False)\<rparr>"] by simp
  have 2: "?cmp (demo_env\<lparr>get_collection := (\<lambda>p n. Inl ''no collection'')\<rparr>) =
     Inl (AgentError ''Embedding query failed: no collection'')"
    using inst [where ev = "demo_env\<lparr>get_collection := (\<lambda>p n. Inl ''no collection'')\<rparr>"
        and m = "''no collection''"]
    by (simp add: demo_env_def)
  have 3: "?cmp (demo_env\<lparr>path_exists := (\<lambda>p. p = ''data/chroma'')\<rparr>) =
     Inl (AgentError ''DB not found: data/db'')"
    using inst [where ev = "demo_env\<lparr>path_exists := (\<lambda>p. p = ''data/chroma'')\<rparr>"] tn
    by (simp add: embedding_query_def hooked_question_def demo_env_def demo_collection_def)
  have 4: "?cmp (demo_env\<lparr>db_connect := (\<lambda>p. Inl ''locked'')\<rparr>) =
     Inl (AgentError ''Database query failed: locked'')"
    using inst [where ev = "demo_env\<lparr>db_connect := (\<lambda>p. Inl ''locked'')\<rparr>" and m = "''locked''"] tn
    by (simp add: embedding_query_def hooked_question_def demo_env_def demo_collection_def)
  have 5: "?cmp (demo_env\<lparr>getenv_OPENAI_API_KEY := None\<rparr>) =
     Inl (AgentError ''OPENAI_API_KEY not set in .env'')"
    using inst [where ev = "demo_env\<lparr>getenv_OPENAI_API_KEY := None\<rparr>"] tn
      hy [of "demo_env\<lparr>getenv_OPENAI_API_KEY := None\<rparr>"]
    by (simp add: embedding_query_def hooked_question_def demo_env_def demo_collection_def
        hydrate_stage_def demo_candidates_def)
  have 6: "?cmp (demo_env\<lparr>chat_completions := (\<lambda>m q cs. Inl ''timeout'')\<rparr>) =
     Inl (AgentError ''OpenAI API call failed: timeout'')"
    using inst [where ev = "demo_env\<lparr>chat_completions := (\<lambda>m q cs. Inl ''timeout'')\<rparr>"
        and m = "''timeout''"] tn sk
      hy [of "demo_env\<lparr>chat_completions := (\<lambda>m q cs. Inl ''timeout'')\<rparr>"]
    by (simp add: embedding_query_def hooked_question_def demo_env_def demo_collection_def
        hydrate_stage_def demo_candidates_def)
  have 7: "?cmp (demo_env\<lparr>json_loads := (\<lambda>t. Inl ''Expecting value'')\<rparr>) =
     Inl (AgentError ''OpenAI returned invalid JSON: Expecting value'')"
    using inst [where ev = "demo_env\<lparr>json_loads := (\<lambda>t. Inl ''Expecting value'')\<rparr>"
        and m = "''Expecting value''"] tn sk
      hy [of "demo_env\<lparr>json_loads := (\<lambda>t. Inl ''Expecting value'')\<rparr>"]
    by (simp add: embedding_query_def hooked_question_def demo_env_def demo_collection_def
        hydrate_stage_def demo_candidates_def)
  have 8: "?cmp (demo_env\<lparr>get_collection :=
                    (\<lambda>p n. Inr \<lparr>col_count = 3, col_query = (\<lambda>q n w. Inl ''no model'')\<rparr>)\<rparr>) =
     Inl (AgentError ''Embedding query failed: no model'')"
    using inst [where ev = "demo_env\<lparr>get_collection :=
                    (\<lambda>p n. Inr \<lparr>col_count = 3, col_query = (\<lambda>q n w. Inl ''no model'')\<rparr>)\<rparr>"
        and m = "''no model''" and col = "\<lparr>col_count = 3, col_query = (\<lambda>q n w. Inl ''no model'')\<rparr>"]
    by (simp add: demo_env_def)
  have 9: "?cmp (demo_env\<lparr>db_ticket := (\<lambda>t. Inl ''no such table'')\<rparr>) =
     Inl (AgentError ''Database query failed: no such table'')"
    using inst [where ev = "demo_env\<lparr>db_ticket := (\<lambda>t. Inl ''no such table'')\<rparr>"
        and m = "''no such table''"] tn
    by (simp add: embedding_query_def hooked_question_def demo_env_def demo_collection_def)
  have 10: "?cmp (demo_env\<lparr>openai_client := (\<lambda>k. Inl ''bad key'')\<rparr>) =
     Inl (AgentError ''OpenAI client init failed: bad key'')"
    using inst [where ev = "demo_env\<lparr>openai_client := (\<lambda>k. Inl ''bad key'')\<rparr>"
        and m = "''bad key''"] tn sk
      hy [of "demo_env\<lparr>openai_client := (\<lambda>k. Inl ''bad key'')\<rparr>"]
    by (simp add: embedding_query_def hooked_question_def demo_env_def demo_collection_def
        hydrate_stage_def demo_candidates_def)
  have 11: "?cmp (demo_env\<lparr>json_loads := (\<lambda>t. Inr (JObj []))\<rparr>) =
     Inr (no_match_result ''wrong invoice'')"
    using inst [where ev = "demo_env\<lparr>json_loads := (\<lambda>t. Inr (JObj []))\<rparr>"
        and rankings = "JArr []"] tn sk
      hy [of "demo_env\<lparr>json_loads := (\<lambda>t. Inr (JObj []))\<rparr>"]
    by (simp add: embedding_query_def hooked_question_def demo_env_def demo_collection_def
        hydrate_stage_def demo_candidates_def decode_rankings_def dict_get_def json_falsy_def)
  have 12: "?cmp (demo_env\<lparr>db_ticket := (\<lambda>t. Inr None)\<rparr>) =
     Inr (no_match_result ''wrong invoice'')"
    using inst [where ev = "demo_env\<lparr>db_ticket := (\<lambda>t. Inr None)\<rparr>"] tn
    by (simp add: embedding_query_def hooked_question_def demo_env_def demo_collection_def
        hydrate_stage_def)
  show ?thesis using 1 2 3 4 5 6 7 8 9 10 11 12 by blast
qed

section \<open>Properties of the retriever\<close>

lemma length_query_hits:
  "length (query_hits results) =
     (case qr_documents results of Some (docs # _) \<Rightarrow> length docs | _ \<Rightarrow> 0)"
  by (auto simp: query_hits_def first_nonempty_def Let_def split: option.splits list.splits)

text \<open>
  Claim C4, as stated, fails: \<open>query_chroma\<close> has no handler, so where the path exists
  and the collection does not open, the exception reaches the caller.
\<close>

theorem query_chroma_missing_collection_counterexample:
  "query_chroma (demo_env\<lparr>get_collection := (\<lambda>p n. Inl ''Collection supportmind does not exist'')\<rparr>)
     ''wrong invoice'' ''data/chroma'' 10 ''supportmind'' None =
   Inl (OtherError ''Collection supportmind does not exist'')"
  by (simp add: query_chroma_def demo_env_def)

text \<open>
  Claim C4, amended. Without the index path the query returns no hit and no error. With
  it, a failure to open the collection or of the similarity query reaches the caller
  unchanged; when both succeed the request is clamped to \<open>min k count\<close>, and where this
  asks for at least one result, a store that answers with at most the requested number
  of documents gives at most that many hits, hence at most \<open>count\<close>.
\<close>

theorem query_chroma_clamps_and_propagates:
  "(\<not> path_exists ev chroma_path \<longrightarrow>
      query_chroma ev query_text chroma_path k collection_name w = Inr []) \<and>
   (path_exists ev chroma_path \<and> get_collection ev chroma_path collection_name = Inl m \<longrightarrow>
      query_chroma ev query_text chroma_path k collection_name w = Inl (OtherError m)) \<and>
   (path_exists ev chroma_path \<and> get_collection ev chroma_path collection_name = Inr col \<longrightarrow>
      (col_query col query_text (min k (col_count col)) w = Inl m \<longrightarrow>
         query_chroma ev query_text chroma_path k collection_name w = Inl (OtherError m)) \<and>
      (0 < min k (col_count col) \<and>
       col_query col query_text (min k (col_count col)) w = Inr results \<and>
       answers_at_most results (min k (col_count col)) \<longrightarrow>
         (\<exists>hits. query_chroma ev query_text chroma_path k collection_name w = Inr hits \<and>
                 int (length hits) \<le> min k (col_count col) \<and>
                 int (length hits) \<le> col_count col)))"
proof -
  have "int (length (query_hits results)) \<le> min k (col_count col)"
    if "answers_at_most results (min k (col_count col))" "0 < min k (col_count col)"
    using that by (auto simp: length_query_hits answers_at_most_def split: option.splits list.splits)
  then show ?thesis
    by (auto simp: query_chroma_def)
qed

theorem query_chroma_clamps_and_propagates_witness:
  "query_chroma (demo_env\<lparr>path_exists := (\<lambda>p. False)\<rparr>)
     ''wrong invoice'' ''data/chroma'' 10 ''supportmind'' None = Inr [] \<and>
   query_chroma (demo_env\<lparr>get_collection := (\<lambda>p n. Inl ''no collection'')\<rparr>)
     ''wrong invoice'' ''data/chroma'' 10 ''supportmind'' None = Inl (OtherError ''no collection'') \<and>
   query_chroma (demo_env\<lparr>get_collection :=
                    (\<lambda>p n. Inr \<lparr>col_count = 3, col_query = (\<lambda>q n w. Inl ''no model'')\<rparr>)\<rparr>)
     ''wrong invoice'' ''data/chroma'' 10 ''supportmind'' None = Inl (OtherError ''no model'') \<and>
   0 < min 10 (col_count demo_collection) \<and>
   col_query demo_collection ''wrong invoice'' (min 10 (col_count demo_collection)) None = Inr demo_results \<and>
   answers_at_most demo_results (min 10 (col_count demo_collection)) \<and>
   (\<exists>hits. query_chroma demo_env ''wrong invoice'' ''data/chroma'' 10 ''supportmind'' None = Inr hits \<and>
           int (length hits) \<le> 3)"
proof -
  note inst = query_chroma_clamps_and_propagates
     [where query_text = "''wrong invoice''" and chroma_path = "''data/chroma''" and k = 10
        and collection_name = "''supportmind''" and w = None]
  have 1: "query_chroma (demo_env\<lparr>path_exists := (\<lambda>p. False)\<rparr>)
     ''wrong invoice'' ''data/chroma'' 10 ''supportmind'' None = Inr []"
    using inst [where ev = "demo_env\<lparr>path_exists := (\<lambda>p. False)\<rparr>"] by simp
  have 2: "query_chroma (demo_env\<lparr>get_collection := (\<lambda>p n. Inl ''no collection'')\<rparr>)
     ''wrong invoice'' ''data/chroma'' 10 ''supportmind'' None = Inl (OtherError ''no collection'')"
    using inst [where ev = "demo_env\<lparr>get_collection := (\<lambda>p n. Inl ''no collection'')\<rparr>"
        and m = "''no collection''"]
    by (simp add: demo_env_def)
  have 3: "query_chroma (demo_env\<lparr>get_collection :=
                    (\<lambda>p n. Inr \<lparr>col_count = 3, col_query = (\<lambda>q n w. Inl ''no model'')\<rparr>)\<rparr>)
     ''wrong invoice'' ''data/chroma'' 10 ''supportmind'' None = Inl (OtherError ''no model'')"
    using inst [where ev = "demo_env\<lparr>get_collection :=
                    (\<lambda>p n. Inr \<lparr>col_count = 3, col_query = (\<lambda>q n w. Inl ''no model'')\<rparr>)\<rparr>"
        and m = "''no model''" and col = "\<lparr>col_count = 3, col_query = (\<lambda>q n w. Inl ''no model'')\<rparr>"]
    by (simp add: demo_env_def)
  have a: "0 < min 10 (col_count demo_collection)"
    "col_query demo_collection ''wrong invoice'' (min 10 (col_count demo_collection)) None = Inr demo_results"
    "answers_at_most demo_results (min 10 (col_count demo_collection))"
    by (simp_all add: demo_collection_def demo_results_def answers_at_most_def)
  have g: "path_exists demo_env ''data/chroma''"
    "get_collection demo_env ''data/chroma'' ''supportmind'' = Inr demo_collection"
    by (simp_all add: demo_env_def)
  have c3: "col_count demo_collection = 3" by (simp add: demo_collection_def)
  from inst [where ev = demo_env and col = demo_collection and results = demo_results] g a
  obtain hits where
    "query_chroma demo_env ''wrong invoice'' ''data/chroma'' 10 ''supportmind'' None = Inr hits"
    "int (length hits) \<le> col_count demo_collection"
    by blast
  then have 4: "\<exists>hits. query_chroma demo_env ''wrong invoice'' ''data/chroma'' 10 ''supportmind'' None = Inr hits \<and>
           int (length hits) \<le> 3"
    using c3 by auto
  show ?thesis using 1 2 3 a 4 by blast
qed

end
